theory Spec2Isabelle
  imports Complex_Main "HOL-Library.Word" "HOL-Library.AList"
begin

unbundle bit_operations_syntax

section \<open>Conventions\<close>

text \<open>
  A shallow embedding of the generation core of the tile-world generator
  (\<^verbatim>\<open>config.js\<close>, \<^verbatim>\<open>seed.js\<close>, \<^verbatim>\<open>biome.js\<close>, \<^verbatim>\<open>structure.js\<close>, \<^verbatim>\<open>scatter.js\<close>,
  \<^verbatim>\<open>autotile.js\<close>, \<^verbatim>\<open>road.js\<close>, \<^verbatim>\<open>tile.js\<close>, \<^verbatim>\<open>chunk.js\<close>).

  \<^item> JavaScript numbers that hold coordinates, seeds, counts and indices are \<open>int\<close>;
    noise values, thresholds and derived quantities are \<open>real\<close>. No property below
    depends on how a double rounds: the generator's pseudo-random values are
    \<open>u / 2^32\<close> for a 32-bit \<open>u\<close>, which a double holds exactly, as it does the small
    multiples whose floor is taken.
  \<^item> Biomes, structure types, object tags and road tags are strings, as in the source.
  \<^item> \<open>null\<close> and \<open>undefined\<close> are \<open>None\<close>; \<open>NaN\<close> and the infinities are not modelled.
  \<^item> An object used as a dictionary is an association list in insertion order, which
    is the order \<^verbatim>\<open>for (const key in obj)\<close> visits keys that are not array indices.
    The keys \<^verbatim>\<open>`${cx},${cy}`\<close> are modelled by the pair \<open>(cx, cy)\<close> they print.
  \<^item> The closure returned by \<^verbatim>\<open>mulberry32\<close> is its captured variable \<open>a\<close>; a call
    returns the new state together with the value. Seeds are integers, of a size that
    a double holds exactly.
\<close>

text \<open>
  Reading a property of \<^verbatim>\<open>undefined\<close> throws a \<^verbatim>\<open>TypeError\<close>. A function that can
  throw returns \<open>error + 'a\<close>, with \<open>Inl\<close> the exception.
\<close>

datatype error = TypeError

section \<open>config.js\<close>

definition CHUNK_SIZE :: nat where "CHUNK_SIZE = 32"
definition STRUCTURE_SPACING :: int where "STRUCTURE_SPACING = 4"
definition STRUCTURE_SPAWN_CHANCE_VILLAGE :: real where "STRUCTURE_SPAWN_CHANCE_VILLAGE = 0.03"
definition STRUCTURE_SPAWN_CHANCE_DUNGEON :: real where "STRUCTURE_SPAWN_CHANCE_DUNGEON = 0.05"
definition NOISE_SCALE :: real where "NOISE_SCALE = 0.05"
definition TEMP_SCALE :: real where "TEMP_SCALE = 0.02"
definition HUMIDITY_SCALE :: real where "HUMIDITY_SCALE = 0.02"
definition SCATTER_SCALE :: real where "SCATTER_SCALE = 0.08"
definition WATER_THRESHOLD :: real where "WATER_THRESHOLD = 0.3"
definition SAND_THRESHOLD :: real where "SAND_THRESHOLD = 0.35"
definition MOUNTAIN_THRESHOLD :: real where "MOUNTAIN_THRESHOLD = 0.8"
definition SNOW_THRESHOLD :: real where "SNOW_THRESHOLD = 0.9"
definition DESERT_TEMP :: real where "DESERT_TEMP = 0.7"
definition DESERT_HUMIDITY :: real where "DESERT_HUMIDITY = 0.4"
definition SNOW_TEMP :: real where "SNOW_TEMP = 0.3"
definition FOREST_HUMIDITY :: real where "FOREST_HUMIDITY = 0.6"
definition FOREST_TREE_DENSITY :: real where "FOREST_TREE_DENSITY = 0.55"
definition GRASS_TREE_DENSITY :: real where "GRASS_TREE_DENSITY = 0.75"
definition GRASS_ROCK_DENSITY_MIN :: real where "GRASS_ROCK_DENSITY_MIN = 0.65"
definition GRASS_ROCK_DENSITY_MAX :: real where "GRASS_ROCK_DENSITY_MAX = 0.7"
definition MOUNTAIN_ROCK_DENSITY :: real where "MOUNTAIN_ROCK_DENSITY = 0.6"

section \<open>seed.js\<close>

text \<open>\<^verbatim>\<open>Math.imul\<close>: the low 32 bits of the product.\<close>

definition imul :: "32 word \<Rightarrow> 32 word \<Rightarrow> 32 word" where
  "imul p q = p * q"

text \<open>
  One call of the generator \<^verbatim>\<open>mulberry32(a)\<close> returns. The captured \<open>a\<close> grows as a
  number; the bit operations read it modulo \<open>2^32\<close>.
\<close>

definition mulberry32 :: "int \<Rightarrow> int \<times> real" where
  "mulberry32 a =
     (let a' = a + 0x6d2b79f5;
          t0 = (word_of_int a' :: 32 word);
          t1 = imul (t0 XOR drop_bit 15 t0) (t0 OR 1);
          t2 = t1 XOR (t1 + imul (t1 XOR drop_bit 7 t1) (t1 OR 61))
      in (a', real (unat (t2 XOR drop_bit 14 t2)) / 4294967296))"

definition createSeededRandom :: "int \<Rightarrow> int" where
  "createSeededRandom seed = seed"

definition seededRandomAngle :: "int \<Rightarrow> int \<times> real" where
  "seededRandomAngle rng = (let (rng', v) = mulberry32 rng in (rng', v * pi * 2))"

section \<open>biome.js\<close>

definition classifyBiome :: "real \<Rightarrow> real \<Rightarrow> real \<Rightarrow> string" where
  "classifyBiome elevation temperature humidity =
     (if elevation < WATER_THRESHOLD then ''water''
      else if elevation < SAND_THRESHOLD then ''sand''
      else if elevation > MOUNTAIN_THRESHOLD then
        (if elevation > SNOW_THRESHOLD then ''snow'' else ''mountain'')
      else if temperature > DESERT_TEMP \<and> humidity < DESERT_HUMIDITY then ''desert''
      else if temperature < SNOW_TEMP then ''snow''
      else if humidity > FOREST_HUMIDITY then ''forest''
      else ''grass'')"

section \<open>structure.js\<close>

text \<open>
  \<^verbatim>\<open>STRUCTURE_TEMPLATES\<close> is an object literal, so \<^verbatim>\<open>STRUCTURE_TEMPLATES[structureType]\<close>
  finds its two own properties and, under any other name, what \<^verbatim>\<open>Object.prototype\<close>
  holds under that name (the twelve properties of the language standard; the repository
  adds none). A value of the table is a template, a function inherited from
  \<^verbatim>\<open>Object.prototype\<close> (of which the code only reads \<^verbatim>\<open>length\<close>, its number of
  parameters, and indexed properties, which it has not), or, under \<^verbatim>\<open>__proto__\<close>,
  \<^verbatim>\<open>Object.prototype\<close> itself, which has no \<^verbatim>\<open>length\<close>. All of them are truthy.
\<close>

datatype tableEntry = Template "string list" | ProtoFunction nat | ProtoObject

definition objectPrototype :: "string \<Rightarrow> tableEntry option" where
  "objectPrototype = map_of
     [(''constructor'', ProtoFunction 1), (''hasOwnProperty'', ProtoFunction 1),
      (''isPrototypeOf'', ProtoFunction 1), (''propertyIsEnumerable'', ProtoFunction 1),
      (''toLocaleString'', ProtoFunction 0), (''toString'', ProtoFunction 0),
      (''valueOf'', ProtoFunction 0), (''__defineGetter__'', ProtoFunction 2),
      (''__defineSetter__'', ProtoFunction 2), (''__lookupGetter__'', ProtoFunction 1),
      (''__lookupSetter__'', ProtoFunction 1), (''__proto__'', ProtoObject)]"

definition STRUCTURE_TEMPLATES :: "string \<Rightarrow> tableEntry option" where
  "STRUCTURE_TEMPLATES structureType =
     (if structureType = ''village''
      then Some (Template [''.....'', ''.VVV.'', ''.VVV.'', ''.VVV.'', ''.....''])
      else if structureType = ''dungeon''
      then Some (Template [''..D..'', ''.DDD.'', ''DDDDD'', ''.DDD.'', ''..D..''])
      else objectPrototype structureType)"

text \<open>
  \<^verbatim>\<open>row += result[size - x - 1][y]\<close>: a string index past the end reads \<^verbatim>\<open>undefined\<close>,
  which \<^verbatim>\<open>+=\<close> appends as the text "undefined". \<open>size - x - 1\<close> is always a row of
  \<open>result\<close>.
\<close>

definition charAt :: "string \<Rightarrow> nat \<Rightarrow> string" where
  "charAt row i = (if i < length row then [row ! i] else ''undefined'')"

definition rotateOnce :: "string list \<Rightarrow> string list" where
  "rotateOnce result =
     (let size = length result
      in map (\<lambda>y. concat (map (\<lambda>x. charAt (result ! (size - x - 1)) y) [0..<size])) [0..<size])"

text \<open>The remainder \<^verbatim>\<open>%\<close> of JavaScript takes the sign of the dividend.\<close>

definition js_rem :: "int \<Rightarrow> int \<Rightarrow> int" where
  "js_rem a b = sgn a * (\<bar>a\<bar> mod \<bar>b\<bar>)"

text \<open>\<^verbatim>\<open>for (let r = 0; r < rotations % 4; r++)\<close> runs \<open>nat (rotations % 4)\<close> times.\<close>

definition rotateTemplate :: "string list \<Rightarrow> int \<Rightarrow> string list" where
  "rotateTemplate template rotations = (rotateOnce ^^ nat (js_rem rotations 4)) template"

definition scaleTemplate :: "string list \<Rightarrow> int \<Rightarrow> string list" where
  "scaleTemplate template scale =
     (if scale = 1 then template
      else concat (map (\<lambda>row. replicate (nat scale)
                                 (concat (map (\<lambda>c. replicate (nat scale) c) row))) template))"

text \<open>
  \<open>rotateTemplate\<close> and \<open>scaleTemplate\<close> on any value of the table. With no rotation to
  do, or a scale of 1, the value is returned as it is. Otherwise the loops run over
  \<^verbatim>\<open>length\<close>: on a function of \<open>n > 0\<close> parameters the first read, \<^verbatim>\<open>result[n - 1][0]\<close> or
  \<^verbatim>\<open>template[0].length\<close>, is a property of \<^verbatim>\<open>undefined\<close>; on a function without
  parameters and on \<^verbatim>\<open>Object.prototype\<close>, where \<^verbatim>\<open>0 < undefined\<close> is false, no loop body
  runs and the result is an empty array.
\<close>

definition rotateTemplateValue :: "tableEntry \<Rightarrow> int \<Rightarrow> error + tableEntry" where
  "rotateTemplateValue entry rotations =
     (case entry of
        Template rows \<Rightarrow> Inr (Template (rotateTemplate rows rotations))
      | ProtoFunction n \<Rightarrow>
          if nat (js_rem rotations 4) = 0 then Inr entry
          else if n = 0 then Inr (Template [])
          else Inl TypeError
      | ProtoObject \<Rightarrow>
          if nat (js_rem rotations 4) = 0 then Inr entry else Inr (Template []))"

definition scaleTemplateValue :: "tableEntry \<Rightarrow> int \<Rightarrow> error + tableEntry" where
  "scaleTemplateValue entry scale =
     (case entry of
        Template rows \<Rightarrow> Inr (Template (scaleTemplate rows scale))
      | ProtoFunction n \<Rightarrow>
          if scale = 1 then Inr entry
          else if n = 0 \<or> scale \<le> 0 then Inr (Template [])
          else Inl TypeError
      | ProtoObject \<Rightarrow>
          if scale = 1 then Inr entry else Inr (Template []))"

record TemplateData =
  template :: tableEntry
  rotation :: int
  scale :: int

text \<open>\<open>getRandomizedTemplate\<close> returns \<^verbatim>\<open>null\<close>, here \<open>None\<close>, for a name the lookup does not find.\<close>

definition getRandomizedTemplate :: "string \<Rightarrow> int \<Rightarrow> error + TemplateData option" where
  "getRandomizedTemplate structureType seed =
     (case STRUCTURE_TEMPLATES structureType of
        None \<Rightarrow> Inr None
      | Some baseTemplate \<Rightarrow>
          (let rng = createSeededRandom seed;
               (rng1, r1) = mulberry32 rng;
               rotation = \<lfloor>r1 * 4\<rfloor>;
               (rng2, r2) = mulberry32 rng1;
               scale = 1 + \<lfloor>r2 * 2\<rfloor>
           in case rotateTemplateValue baseTemplate rotation of
                Inl e \<Rightarrow> Inl e
              | Inr rotated \<Rightarrow>
                  (case scaleTemplateValue rotated scale of
                     Inl e \<Rightarrow> Inl e
                   | Inr scaled \<Rightarrow>
                       Inr (Some \<lparr>template = scaled, rotation = rotation,
                                   scale = scale\<rparr>))))"

definition canPlaceStructure :: "string \<Rightarrow> string \<Rightarrow> bool \<Rightarrow> bool" where
  "canPlaceStructure structureType biomeName isWater =
     (if isWater then False
      else if structureType = ''village'' then
        biomeName = ''grass'' \<or> biomeName = ''forest'' \<or> biomeName = ''grassland''
      else if structureType = ''dungeon'' then biomeName \<noteq> ''water''
      else False)"

definition getStructureKey :: "int \<Rightarrow> int \<Rightarrow> int \<times> int" where
  "getStructureKey cx cy = (cx, cy)"

text \<open>A square character grid: every row is as long as the template has rows.\<close>

definition squareTemplate :: "string list \<Rightarrow> bool" where
  "squareTemplate t = (\<forall>row \<in> set t. length row = length t)"

section \<open>noise.js\<close>

definition normalizeNoise :: "real \<Rightarrow> real" where
  "normalizeNoise v = (v + 1) / 2"

text \<open>
  The four samplers handed to the chunk generator
  (\<^verbatim>\<open>{ elevation, temperature, humidity, scatter }\<close>). They come from a library outside
  the repository and are parameters here.
\<close>

record NoiseFunctions =
  noise_elevation :: "real \<Rightarrow> real \<Rightarrow> real"
  noise_temperature :: "real \<Rightarrow> real \<Rightarrow> real"
  noise_humidity :: "real \<Rightarrow> real \<Rightarrow> real"
  noise_scatter :: "real \<Rightarrow> real \<Rightarrow> real"

section \<open>autotile.js: the variant table\<close>

text \<open>A variant record \<^verbatim>\<open>{ id, rotation, priority }\<close>.\<close>

record TileVariant =
  variant_id :: string
  variant_rotation :: int
  variant_priority :: int

definition TILE_VARIANTS :: "nat \<Rightarrow> TileVariant option" where
  "TILE_VARIANTS = map_of
     [(0x00, \<lparr>variant_id = ''full'', variant_rotation = 0, variant_priority = 1\<rparr>),
      (0xff, \<lparr>variant_id = ''corners'', variant_rotation = 0, variant_priority = 2\<rparr>),
      (0x01, \<lparr>variant_id = ''n'', variant_rotation = 0, variant_priority = 3\<rparr>),
      (0x02, \<lparr>variant_id = ''e'', variant_rotation = 0, variant_priority = 3\<rparr>),
      (0x04, \<lparr>variant_id = ''s'', variant_rotation = 0, variant_priority = 3\<rparr>),
      (0x08, \<lparr>variant_id = ''w'', variant_rotation = 0, variant_priority = 3\<rparr>),
      (0x10, \<lparr>variant_id = ''nw'', variant_rotation = 0, variant_priority = 4\<rparr>),
      (0x20, \<lparr>variant_id = ''ne'', variant_rotation = 0, variant_priority = 4\<rparr>),
      (0x40, \<lparr>variant_id = ''se'', variant_rotation = 0, variant_priority = 4\<rparr>),
      (0x80, \<lparr>variant_id = ''sw'', variant_rotation = 0, variant_priority = 4\<rparr>),
      (0x0e, \<lparr>variant_id = ''t_down'', variant_rotation = 0, variant_priority = 5\<rparr>),
      (0x0d, \<lparr>variant_id = ''t_right'', variant_rotation = 0, variant_priority = 5\<rparr>),
      (0x0b, \<lparr>variant_id = ''t_up'', variant_rotation = 0, variant_priority = 5\<rparr>),
      (0x07, \<lparr>variant_id = ''t_left'', variant_rotation = 0, variant_priority = 5\<rparr>),
      (0x05, \<lparr>variant_id = ''edge_h'', variant_rotation = 0, variant_priority = 6\<rparr>),
      (0x0a, \<lparr>variant_id = ''edge_v'', variant_rotation = 0, variant_priority = 6\<rparr>),
      (0x0c, \<lparr>variant_id = ''corner_ne'', variant_rotation = 0, variant_priority = 7\<rparr>),
      (0x06, \<lparr>variant_id = ''corner_nw'', variant_rotation = 0, variant_priority = 7\<rparr>),
      (0x03, \<lparr>variant_id = ''corner_se'', variant_rotation = 0, variant_priority = 7\<rparr>),
      (0x09, \<lparr>variant_id = ''corner_sw'', variant_rotation = 0, variant_priority = 7\<rparr>),
      (0x0f, \<lparr>variant_id = ''single'', variant_rotation = 0, variant_priority = 8\<rparr>)]"

section \<open>tile.js\<close>

text \<open>
  The fields of the \<^verbatim>\<open>Tile\<close> class, and the three that autotiling adds to a tile
  (\<open>tileMask\<close>, \<open>tileVariant\<close>, \<open>neighborBiomes\<close>; absent, that is \<open>None\<close> or empty, until
  assigned). \<open>neighborBiomes\<close> maps a direction name to a biome.
\<close>

record Tile =
  tile_x :: int
  tile_y :: int
  elevation :: real
  biome :: string
  temperature :: real
  humidity :: real
  "structure" :: "string option"
  object :: "string option"
  roadType :: "string option"
  tileMask :: "nat option"
  tileVariant :: "TileVariant option"
  neighborBiomes :: "(string \<times> string) list"

definition newTile :: "int \<Rightarrow> int \<Rightarrow> Tile" where
  "newTile wx wy =
     \<lparr>tile_x = wx, tile_y = wy, elevation = 0.5, biome = ''grass'', temperature = 0.5,
      humidity = 0.5, structure = None, object = None, roadType = None,
      tileMask = None, tileVariant = None, neighborBiomes = []\<rparr>"

text \<open>Truthiness of a value that is \<^verbatim>\<open>null\<close> or a string: the empty string is falsy.\<close>

definition truthy :: "string option \<Rightarrow> bool" where
  "truthy v = (case v of None \<Rightarrow> False | Some s \<Rightarrow> s \<noteq> [])"

section \<open>scatter.js\<close>

definition getScatterType :: "Tile \<Rightarrow> int \<Rightarrow> int \<Rightarrow> (real \<Rightarrow> real \<Rightarrow> real) \<Rightarrow> string option" where
  "getScatterType tile worldX worldY scatterNoise =
     (if structure tile \<noteq> None \<or> biome tile = ''water'' then None
      else
        let density = normalizeNoise
              (scatterNoise (real_of_int worldX * SCATTER_SCALE) (real_of_int worldY * SCATTER_SCALE))
        in if biome tile = ''forest'' \<and> density > FOREST_TREE_DENSITY then Some ''tree''
           else if (biome tile = ''grass'' \<or> biome tile = ''grassland'')
                   \<and> density > GRASS_TREE_DENSITY then Some ''tree''
           else if (biome tile = ''grass'' \<or> biome tile = ''grassland'')
                   \<and> density > GRASS_ROCK_DENSITY_MIN \<and> density < GRASS_ROCK_DENSITY_MAX
                then Some ''rock''
           else if biome tile = ''mountain'' \<and> density > MOUNTAIN_ROCK_DENSITY then Some ''rock''
           else if biome tile = ''desert'' \<and> density > 0.7 then Some ''rock''
           else None)"

section \<open>autotile.js\<close>

text \<open>
  \<^verbatim>\<open>BIOME_GROUPS\<close> is an object literal too. Under a name of \<^verbatim>\<open>Object.prototype\<close> the lookup
  finds a value that is no group number: \<^verbatim>\<open>BIOME_TRANSITIONS\<close> holds nothing under it and
  no list of allowed groups includes it, so \<open>canTransition\<close> returns \<^verbatim>\<open>false\<close> for two
  different biomes as it does when the lookup finds nothing. \<^verbatim>\<open>BIOME_TRANSITIONS\<close> is only
  read under group numbers.
\<close>

definition BIOME_GROUPS :: "string \<Rightarrow> nat option" where
  "BIOME_GROUPS = map_of
     [(''water'', 0), (''sand'', 1), (''grass'', 2), (''grassland'', 2), (''forest'', 3),
      (''mountain'', 4), (''snow'', 5), (''desert'', 6), (''village'', 7), (''dungeon'', 8)]"

definition BIOME_TRANSITIONS :: "nat \<Rightarrow> nat list option" where
  "BIOME_TRANSITIONS = map_of
     [(0, [0, 1]), (1, [1, 0, 2]), (2, [2, 3, 1]), (3, [3, 2]), (4, [4, 5]),
      (5, [5, 4]), (6, [6, 1]), (7, [7, 2]), (8, [8])]"

definition canTransition :: "string \<Rightarrow> string \<Rightarrow> bool" where
  "canTransition fromBiome toBiome =
     (if fromBiome = toBiome then True
      else case (BIOME_GROUPS fromBiome, BIOME_GROUPS toBiome) of
             (Some fromGroup, Some toGroup) \<Rightarrow>
               (case BIOME_TRANSITIONS fromGroup of
                  Some allowed \<Rightarrow> toGroup \<in> set allowed
                | None \<Rightarrow> False)
           | _ \<Rightarrow> False)"

text \<open>The neighbour table of \<open>calculateTileMask\<close>: \<open>(dx, dy, bit)\<close>.\<close>

definition neighbors :: "(int \<times> int \<times> nat) list" where
  "neighbors = [(0, -1, 0), (1, -1, 1), (1, 0, 2), (1, 1, 3),
                (0, 1, 4), (-1, 1, 5), (-1, 0, 6), (-1, -1, 7)]"

definition directionName :: "nat \<Rightarrow> string" where
  "directionName b = [''N'', ''NE'', ''E'', ''SE'', ''S'', ''SW'', ''W'', ''NW''] ! b"

text \<open>
  \<^verbatim>\<open>chunkTiles[0]?.length\<close>; without a first column the comparison \<^verbatim>\<open>ny < undefined\<close>
  is false.
\<close>

definition inChunk :: "Tile list list \<Rightarrow> int \<Rightarrow> int \<Rightarrow> bool" where
  "inChunk chunkTiles nx ny =
     (nx \<ge> 0 \<and> nx < int (length chunkTiles) \<and> ny \<ge> 0
      \<and> (case chunkTiles of [] \<Rightarrow> False | col # _ \<Rightarrow> ny < int (length col)))"

text \<open>
  One pass of the loop over the neighbour table. The state is the mask \<open>m\<close> and the
  \<open>neighborBiomes\<close> object under construction. \<^verbatim>\<open>chunkTiles[nx][ny]\<close> is
  \<^verbatim>\<open>undefined\<close> when column \<open>nx\<close> is shorter than the first column, and reading its
  \<open>biome\<close> then throws.
\<close>

definition maskStep :: "string \<Rightarrow> Tile list list \<Rightarrow> int \<Rightarrow> int \<Rightarrow> int \<times> int \<times> nat
    \<Rightarrow> nat \<times> (string \<times> string) list \<Rightarrow> error + nat \<times> (string \<times> string) list" where
  "maskStep centerBiome chunkTiles localX localY nb st =
     (let (dx, dy, b) = nb; (m, nbs) = st;
          nx = localX + dx; ny = localY + dy
      in if inChunk chunkTiles nx ny then
           (if nat ny < length (chunkTiles ! nat nx) then
              (let neighborTile = chunkTiles ! nat nx ! nat ny;
                   neighborBiome = biome neighborTile;
                   nbs' = AList.update (directionName b) neighborBiome nbs
               in Inr (if canTransition centerBiome neighborBiome
                       then m OR push_bit b 1 else m, nbs'))
            else Inl TypeError)
         else Inr (m, nbs))"

fun maskLoop :: "string \<Rightarrow> Tile list list \<Rightarrow> int \<Rightarrow> int \<Rightarrow> (int \<times> int \<times> nat) list
    \<Rightarrow> nat \<times> (string \<times> string) list \<Rightarrow> error + nat \<times> (string \<times> string) list" where
  "maskLoop centerBiome chunkTiles localX localY [] st = Inr st"
| "maskLoop centerBiome chunkTiles localX localY (nb # rest) st =
     (case maskStep centerBiome chunkTiles localX localY nb st of
        Inl e \<Rightarrow> Inl e
      | Inr st' \<Rightarrow> maskLoop centerBiome chunkTiles localX localY rest st')"

text \<open>
  \<open>calculateTileMask\<close> returns the mask and stores \<open>neighborBiomes\<close> on the centre tile;
  the model returns both.
\<close>

definition calculateTileMask :: "Tile \<Rightarrow> Tile list list \<Rightarrow> int \<Rightarrow> int
    \<Rightarrow> error + nat \<times> (string \<times> string) list" where
  "calculateTileMask centerTile chunkTiles localX localY =
     maskLoop (biome centerTile) chunkTiles localX localY neighbors (0, [])"

definition getVariantFromMask :: "nat \<Rightarrow> TileVariant option" where
  "getVariantFromMask m =
     (case TILE_VARIANTS m of
        Some v \<Rightarrow> Some v
      | None \<Rightarrow>
          if m = 0xff then TILE_VARIANTS 0xff
          else if m = 0x00 then TILE_VARIANTS 0x00
          else TILE_VARIANTS 0x00)"

text \<open>
  The body of the double loop of \<open>applyChunkAutotiling\<close> at \<open>(x, y)\<close>, on the grid as
  the earlier iterations left it. \<^verbatim>\<open>chunkTiles[x][y]\<close> is \<^verbatim>\<open>undefined\<close> in a column
  shorter than the first, and reading its \<open>structure\<close> throws.
\<close>

definition autotileAt :: "Tile list list \<Rightarrow> nat \<times> nat \<Rightarrow> error + Tile list list" where
  "autotileAt chunkTiles p =
     (let (x, y) = p
      in if y < length (chunkTiles ! x) then
           (let tile = chunkTiles ! x ! y
            in if structure tile \<noteq> None then
                 Inr (chunkTiles[x := (chunkTiles ! x)[y := tile\<lparr>tileVariant := None\<rparr>]])
               else
                 (case calculateTileMask tile chunkTiles (int x) (int y) of
                    Inl e \<Rightarrow> Inl e
                  | Inr (m, nbs) \<Rightarrow>
                      Inr (chunkTiles[x := (chunkTiles ! x)[y :=
                             tile\<lparr>neighborBiomes := nbs,
                                  tileVariant := getVariantFromMask m,
                                  tileMask := Some m\<rparr>]])))
         else Inl TypeError)"

fun autotileLoop :: "(nat \<times> nat) list \<Rightarrow> Tile list list \<Rightarrow> error + Tile list list" where
  "autotileLoop [] chunkTiles = Inr chunkTiles"
| "autotileLoop (p # ps) chunkTiles =
     (case autotileAt chunkTiles p of
        Inl e \<Rightarrow> Inl e
      | Inr chunkTiles' \<Rightarrow> autotileLoop ps chunkTiles')"

definition applyChunkAutotiling :: "Tile list list \<Rightarrow> error + Tile list list" where
  "applyChunkAutotiling chunkTiles =
     (let width = length chunkTiles;
          height = (case chunkTiles of [] \<Rightarrow> 0 | col # _ \<Rightarrow> length col)
      in autotileLoop (concat (map (\<lambda>x. map (\<lambda>y. (x, y)) [0..<height]) [0..<width])) chunkTiles)"

section \<open>road.js\<close>

text \<open>
  A \<open>RoadNode\<close> object. Edges hold references to node objects, and two nodes with equal
  coordinates are still two objects: \<open>node_ref\<close> is the identity of the object, the
  position at which the graph allocated it in its \<open>nodes\<close> array. The constructor
  floors both coordinates.
\<close>

record RoadNode =
  node_ref :: nat
  node_x :: int
  node_y :: int

definition newRoadNode :: "nat \<Rightarrow> real \<Rightarrow> real \<Rightarrow> RoadNode" where
  "newRoadNode r px py = \<lparr>node_ref = r, node_x = \<lfloor>px\<rfloor>, node_y = \<lfloor>py\<rfloor>\<rparr>"

record RoadEdge =
  edge_from :: RoadNode
  edge_to :: RoadNode

record RoadGraph =
  centerX :: real
  centerY :: real
  nodes :: "RoadNode list"
  edges :: "RoadEdge list"

text \<open>
  The body of the loop of \<open>generateGraph\<close>. The state is the generator and the two
  arrays. The new node is pushed before the parent index is drawn, so the draw ranges
  over the array with the new node in it.
\<close>

definition addNode :: "real \<Rightarrow> real \<Rightarrow> int \<times> RoadNode list \<times> RoadEdge list
    \<Rightarrow> int \<times> RoadNode list \<times> RoadEdge list" where
  "addNode cX cY st =
     (let (rng, ns, es) = st;
          (rng1, angle) = seededRandomAngle rng;
          (rng2, r2) = mulberry32 rng1;
          distance = 6 + r2 * 12;
          px = cX + cos angle * distance;
          py = cY + sin angle * distance;
          node = newRoadNode (length ns) px py;
          ns' = ns @ [node];
          (rng3, r3) = mulberry32 rng2;
          parentIdx = \<lfloor>r3 * real (length ns')\<rfloor>;
          parentNode = ns' ! nat parentIdx
      in (rng3, ns', es @ [\<lparr>edge_from = parentNode, edge_to = node\<rparr>]))"

text \<open>\<^verbatim>\<open>for (let i = 1; i < nodeCount; i++)\<close> runs the body \<open>nodeCount - 1\<close> times.\<close>

definition generateGraph :: "real \<Rightarrow> real \<Rightarrow> int \<Rightarrow> RoadGraph" where
  "generateGraph cX cY rng =
     (let centerNode = newRoadNode 0 cX cY;
          (rng1, r1) = mulberry32 rng;
          nodeCount = 5 + \<lfloor>r1 * 6\<rfloor>;
          (rng', ns, es) = ((addNode cX cY) ^^ (nat nodeCount - 1)) (rng1, [centerNode], [])
      in \<lparr>centerX = cX, centerY = cY, nodes = ns, edges = es\<rparr>)"

definition generateVillageRoadGraph :: "real \<Rightarrow> real \<Rightarrow> int \<Rightarrow> RoadGraph" where
  "generateVillageRoadGraph cX cY seed = generateGraph cX cY (createSeededRandom seed)"

text \<open>
  The \<^verbatim>\<open>while (true)\<close> loop of \<open>drawLineOnGrid\<close>, over a state \<open>s\<close> that the callback
  changes. \<open>None\<close> is a loop that never breaks.
\<close>

partial_function (option) drawLineLoop :: "(int \<Rightarrow> int \<Rightarrow> 's \<Rightarrow> 's) \<Rightarrow> int \<Rightarrow> int \<Rightarrow> int \<Rightarrow> int
    \<Rightarrow> int \<Rightarrow> int \<Rightarrow> int \<Rightarrow> int \<Rightarrow> int \<Rightarrow> 's \<Rightarrow> 's option" where
  "drawLineLoop callback x1 y1 dx dy sx sy x0 y0 err s =
     (let s' = callback x0 y0 s
      in if x0 = x1 \<and> y0 = y1 then Some s'
         else
           let e2 = err * 2;
               err1 = (if e2 > - dy then err - dy else err);
               x0' = (if e2 > - dy then x0 + sx else x0);
               err2 = (if e2 < dx then err1 + dx else err1);
               y0' = (if e2 < dx then y0 + sy else y0)
           in drawLineLoop callback x1 y1 dx dy sx sy x0' y0' err2 s')"

definition drawLineOnGrid :: "(int \<Rightarrow> int \<Rightarrow> 's \<Rightarrow> 's) \<Rightarrow> real \<Rightarrow> real \<Rightarrow> real \<Rightarrow> real
    \<Rightarrow> 's \<Rightarrow> 's option" where
  "drawLineOnGrid callback px0 py0 px1 py1 s =
     (let x0 = \<lfloor>px0\<rfloor>; y0 = \<lfloor>py0\<rfloor>; x1 = \<lfloor>px1\<rfloor>; y1 = \<lfloor>py1\<rfloor>;
          dx = \<bar>x1 - x0\<bar>; dy = \<bar>y1 - y0\<bar>;
          sx = (if x0 < x1 then 1 else - 1);
          sy = (if y0 < y1 then 1 else - 1);
          err = dx - dy
      in drawLineLoop callback x1 y1 dx dy sx sy x0 y0 err s)"

text \<open>The \<open>options\<close> argument \<^verbatim>\<open>{ roadWidth, roadType }\<close>; an absent field is \<open>None\<close>.\<close>

record RoadOptions =
  opt_roadWidth :: "int option"
  opt_roadType :: "string option"

text \<open>
  The guarded assignment in the callback: nothing happens outside the map
  (\<^verbatim>\<open>tileMap[ty]\<close> or \<^verbatim>\<open>tileMap[ty][tx]\<close> is \<^verbatim>\<open>undefined\<close>) or on a tile whose
  \<open>roadType\<close> is not \<^verbatim>\<open>null\<close>.
\<close>

definition markRoad :: "string \<Rightarrow> int \<Rightarrow> int \<Rightarrow> Tile list list \<Rightarrow> Tile list list" where
  "markRoad rt tx ty tileMap =
     (if 0 \<le> ty \<and> ty < int (length tileMap)
         \<and> 0 \<le> tx \<and> tx < int (length (tileMap ! nat ty))
         \<and> roadType (tileMap ! nat ty ! nat tx) = None
      then tileMap[nat ty := (tileMap ! nat ty)[nat tx :=
             (tileMap ! nat ty ! nat tx)\<lparr>roadType := Some rt\<rparr>]]
      else tileMap)"

text \<open>The callback: the two nested loops over \<open>dx\<close> and \<open>dy\<close> in \<open>[-roadWidth, roadWidth]\<close>.\<close>

definition roadCallback :: "int \<Rightarrow> string \<Rightarrow> int \<Rightarrow> int \<Rightarrow> Tile list list \<Rightarrow> Tile list list" where
  "roadCallback w rt px py tileMap =
     fold (\<lambda>(dx, dy). markRoad rt (px + dx) (py + dy))
       (concat (map (\<lambda>dx. map (\<lambda>dy. (dx, dy)) [- w..w]) [- w..w])) tileMap"

fun rasterizeEdges :: "int \<Rightarrow> string \<Rightarrow> RoadEdge list \<Rightarrow> Tile list list \<Rightarrow> Tile list list option" where
  "rasterizeEdges w rt [] tileMap = Some tileMap"
| "rasterizeEdges w rt (edge # rest) tileMap =
     (case drawLineOnGrid (roadCallback w rt)
             (real_of_int (node_x (edge_from edge))) (real_of_int (node_y (edge_from edge)))
             (real_of_int (node_x (edge_to edge))) (real_of_int (node_y (edge_to edge))) tileMap of
        None \<Rightarrow> None
      | Some tileMap' \<Rightarrow> rasterizeEdges w rt rest tileMap')"

text \<open>
  \<^verbatim>\<open>options.roadWidth || 1\<close> and \<^verbatim>\<open>options.roadType || "road"\<close>: an absent field, the
  number 0 and the empty string are falsy.
\<close>

definition rasterizeroads :: "Tile list list \<Rightarrow> RoadGraph \<Rightarrow> RoadOptions \<Rightarrow> Tile list list option" where
  "rasterizeroads tileMap graph options =
     (let roadWidth = (case opt_roadWidth options of
                         None \<Rightarrow> 1 | Some w \<Rightarrow> if w = 0 then 1 else w);
          rt = (case opt_roadType options of
                  None \<Rightarrow> ''road'' | Some t \<Rightarrow> if t = [] then ''road'' else t)
      in rasterizeEdges roadWidth rt (edges graph) tileMap)"

section \<open>chunk.js\<close>

definition getChunkKey :: "int \<Rightarrow> int \<Rightarrow> int \<times> int" where
  "getChunkKey cx cy = (cx, cy)"

text \<open>A registry entry \<^verbatim>\<open>{ type, cx, cy }\<close>, and the registry object.\<close>

record StructureRecord =
  struct_type :: string
  struct_cx :: int
  struct_cy :: int

type_synonym registry = "((int \<times> int) \<times> StructureRecord) list"

text \<open>
  "Structure placement logic": the candidate chunk of the grid cell, the roll, and the
  registration. Returns \<open>structureType\<close> and the registry.
\<close>

definition placeStructure :: "int \<Rightarrow> int \<Rightarrow> int \<Rightarrow> registry \<Rightarrow> string option \<times> registry" where
  "placeStructure cx cy worldSeed reg =
     (let SPACING = STRUCTURE_SPACING;
          gridX = \<lfloor>real_of_int cx / real_of_int SPACING\<rfloor>;
          gridY = \<lfloor>real_of_int cy / real_of_int SPACING\<rfloor>;
          gridRng = createSeededRandom (worldSeed + gridX * 918273 + gridY * 192837);
          (gridRng1, r1) = mulberry32 gridRng;
          candidateOffX = \<lfloor>r1 * real_of_int SPACING\<rfloor>;
          (gridRng2, r2) = mulberry32 gridRng1;
          candidateOffY = \<lfloor>r2 * real_of_int SPACING\<rfloor>;
          isCandidateChunk = (cx = gridX * SPACING + candidateOffX
                              \<and> cy = gridY * SPACING + candidateOffY)
      in if isCandidateChunk then
           (let (gridRng3, roll) = mulberry32 gridRng2;
                structureType =
                  (if roll < STRUCTURE_SPAWN_CHANCE_VILLAGE then Some ''village''
                   else if roll < STRUCTURE_SPAWN_CHANCE_DUNGEON then Some ''dungeon''
                   else None)
            in case structureType of
                 Some t \<Rightarrow>
                   (structureType,
                    AList.update (getStructureKey cx cy)
                      \<lparr>struct_type = t, struct_cx = cx, struct_cy = cy\<rparr> reg)
               | None \<Rightarrow> (structureType, reg))
         else (None, reg))"

text \<open>The test of the scan: \<^verbatim>\<open>dx <= 1 && dy <= 1\<close>.\<close>

definition nearChunk :: "int \<Rightarrow> int \<Rightarrow> StructureRecord \<Rightarrow> bool" where
  "nearChunk cx cy d = (\<bar>cx - struct_cx d\<bar> \<le> 1 \<and> \<bar>cy - struct_cy d\<bar> \<le> 1)"

text \<open>
  "Check for nearby structures": the loop over the registry stops at the first entry in
  range. Returns \<open>structureType\<close>, \<open>structureChunk\<close> and \<open>nearbyStructure\<close>.
\<close>

fun checkNearby :: "int \<Rightarrow> int \<Rightarrow> string option \<Rightarrow> registry
    \<Rightarrow> string option \<times> (int \<times> int) option \<times> StructureRecord option" where
  "checkNearby cx cy structureType [] = (structureType, None, None)"
| "checkNearby cx cy structureType ((key, d) # rest) =
     (if nearChunk cx cy d then
        (if \<not> truthy structureType
         then (Some (struct_type d), Some (struct_cx d, struct_cy d), Some d)
         else (structureType, None, Some d))
      else checkNearby cx cy structureType rest)"

text \<open>"Precompute rotated template": \<open>rotatedTemplate\<close> and \<open>templateScale\<close>.\<close>

definition precomputeTemplate :: "int \<Rightarrow> int \<Rightarrow> int \<Rightarrow> string option
    \<Rightarrow> error + tableEntry option \<times> int" where
  "precomputeTemplate cx cy worldSeed structureType =
     (case structureType of
        Some t \<Rightarrow>
          if truthy structureType then
            (let templateSeed = worldSeed + cx * 123456 + cy * 789012
             in case getRandomizedTemplate t templateSeed of
                  Inl e \<Rightarrow> Inl e
                | Inr (Some templateData) \<Rightarrow>
                    Inr (Some (template templateData), scale templateData)
                | Inr None \<Rightarrow> Inr (None, 1))
          else Inr (None, 1)
      | None \<Rightarrow> Inr (None, 1))"

text \<open>
  "Apply structure template" on one tile. \<^verbatim>\<open>template[ty][tx]\<close> is \<^verbatim>\<open>undefined\<close>, and
  so different from ".", past the end of row \<open>ty\<close>.
\<close>

definition applyTemplate :: "string \<Rightarrow> string list \<Rightarrow> nat \<Rightarrow> nat \<Rightarrow> Tile \<Rightarrow> Tile" where
  "applyTemplate structureType tmpl lx ly tile =
     (let size = int (length tmpl);
          start = \<lfloor>real CHUNK_SIZE / 2 - real_of_int size / 2\<rfloor>;
          tx = int lx - start;
          ty = int ly - start
      in if tx \<ge> 0 \<and> ty \<ge> 0 \<and> tx < size \<and> ty < size then
           (let row = tmpl ! nat ty;
                ch = (if nat tx < length row then Some (row ! nat tx) else None)
            in if ch \<noteq> Some CHR ''.'' then
                 (let isValid = canPlaceStructure structureType (biome tile)
                                  (biome tile = ''water'')
                  in if isValid then
                       (let tile1 = tile\<lparr>structure := Some structureType,
                                         biome := structureType\<rparr>
                        in if structureType = ''village''
                           then tile1\<lparr>elevation := 0.5\<rparr> else tile1)
                     else tile)
               else tile)
         else tile)"

text \<open>
  The same block on any value of the table. On a function of \<open>n\<close> parameters \<open>size\<close> is
  \<open>n\<close>, and \<^verbatim>\<open>template[ty][tx]\<close> reads a property of \<^verbatim>\<open>undefined\<close> on a tile inside the
  square; on \<^verbatim>\<open>Object.prototype\<close> \<open>size\<close> is \<^verbatim>\<open>undefined\<close>, \<open>start\<close> is \<^verbatim>\<open>NaN\<close> and
  the bounds test fails.
\<close>

definition applyTemplateValue :: "string \<Rightarrow> tableEntry \<Rightarrow> nat \<Rightarrow> nat \<Rightarrow> Tile
    \<Rightarrow> error + Tile" where
  "applyTemplateValue structureType entry lx ly tile =
     (case entry of
        Template rows \<Rightarrow> Inr (applyTemplate structureType rows lx ly tile)
      | ProtoFunction n \<Rightarrow>
          (let size = int n;
               start = \<lfloor>real CHUNK_SIZE / 2 - real_of_int size / 2\<rfloor>;
               tx = int lx - start;
               ty = int ly - start
           in if tx \<ge> 0 \<and> ty \<ge> 0 \<and> tx < size \<and> ty < size then Inl TypeError
              else Inr tile)
      | ProtoObject \<Rightarrow> Inr tile)"

text \<open>The body of the double loop "generate tiles for chunk" at local \<open>(lx, ly)\<close>.\<close>

definition generateTile :: "int \<Rightarrow> int \<Rightarrow> NoiseFunctions \<Rightarrow> string option
    \<Rightarrow> tableEntry option \<Rightarrow> nat \<Rightarrow> nat \<Rightarrow> error + Tile" where
  "generateTile cx cy noiseFunctions structureType rotatedTemplate lx ly =
     (let worldX = cx * int CHUNK_SIZE + int lx;
          worldY = cy * int CHUNK_SIZE + int ly;
          tile0 = newTile worldX worldY;
          warp = normalizeNoise
                   (noise_elevation noiseFunctions (real_of_int worldX * 0.01)
                      (real_of_int worldY * 0.01));
          elev = normalizeNoise
                   (noise_elevation noiseFunctions
                      (real_of_int worldX * NOISE_SCALE + warp * 8)
                      (real_of_int worldY * NOISE_SCALE + warp * 8));
          temp = normalizeNoise
                   (noise_temperature noiseFunctions (real_of_int worldX * TEMP_SCALE)
                      (real_of_int worldY * TEMP_SCALE));
          humi = normalizeNoise
                   (noise_humidity noiseFunctions (real_of_int worldX * HUMIDITY_SCALE)
                      (real_of_int worldY * HUMIDITY_SCALE));
          tile1 = tile0\<lparr>elevation := elev, temperature := temp, humidity := humi\<rparr>;
          tile2 = tile1\<lparr>biome := classifyBiome elev temp humi\<rparr>
      in case (case (structureType, rotatedTemplate) of
                 (Some t, Some entry) \<Rightarrow>
                   if truthy structureType
                   then applyTemplateValue t entry lx ly tile2 else Inr tile2
               | _ \<Rightarrow> Inr tile2) of
           Inl e \<Rightarrow> Inl e
         | Inr tile3 \<Rightarrow>
             Inr (if \<not> truthy (structure tile3) \<and> biome tile3 \<noteq> ''water''
                     \<and> roadType tile3 = None
                  then tile3\<lparr>object := getScatterType tile3 worldX worldY
                                         (noise_scatter noiseFunctions)\<rparr>
                  else tile3))"

text \<open>A loop whose body can throw: the results so far, or the first exception.\<close>

fun collect :: "(error + 'a) list \<Rightarrow> error + 'a list" where
  "collect [] = Inr []"
| "collect (r # rs) =
     (case r of
        Inl e \<Rightarrow> Inl e
      | Inr v \<Rightarrow> (case collect rs of Inl e \<Rightarrow> Inl e | Inr vs \<Rightarrow> Inr (v # vs)))"

text \<open>
  \<open>generateChunk\<close> returns the grid \<^verbatim>\<open>chunk[x][y]\<close>; it also writes to the registry it
  is given, so the model returns the registry as well. A call that throws has left the
  registry as it was (\<open>generateChunk_throws_unwritten\<close> below), so \<open>Inl\<close> carries none.
  The generator \<open>chunkRng\<close> of the source is created and never called.
\<close>

definition generateChunk :: "int \<Rightarrow> int \<Rightarrow> int \<Rightarrow> NoiseFunctions \<Rightarrow> registry
    \<Rightarrow> error + Tile list list \<times> registry" where
  "generateChunk cx cy worldSeed noiseFunctions reg =
     (let (structureType0, reg') = placeStructure cx cy worldSeed reg;
          (structureType, structureChunk, nearbyStructure) =
             checkNearby cx cy structureType0 reg'
      in case precomputeTemplate cx cy worldSeed structureType of
           Inl e \<Rightarrow> Inl e
         | Inr (rotatedTemplate, templateScale) \<Rightarrow>
             (case collect
                     (map (\<lambda>lx. collect
                                   (map (\<lambda>ly. generateTile cx cy noiseFunctions structureType
                                                 rotatedTemplate lx ly) [0..<CHUNK_SIZE]))
                        [0..<CHUNK_SIZE]) of
                Inl e \<Rightarrow> Inl e
              | Inr chunk \<Rightarrow>
                  (case applyChunkAutotiling chunk of
                     Inl e \<Rightarrow> Inl e
                   | Inr chunk' \<Rightarrow> Inr (chunk', reg'))))"

record ChunkCache =
  chunks :: "((int \<times> int) \<times> Tile list list) list"
  registry :: registry

definition newChunkCache :: ChunkCache where
  "newChunkCache = \<lparr>chunks = [], registry = []\<rparr>"

definition getChunk :: "int \<Rightarrow> int \<Rightarrow> int \<Rightarrow> NoiseFunctions \<Rightarrow> ChunkCache
    \<Rightarrow> error + Tile list list \<times> ChunkCache" where
  "getChunk cx cy worldSeed noiseFunctions cache =
     (let key = getChunkKey cx cy
      in case map_of (chunks cache) key of
           Some chunk \<Rightarrow> Inr (chunk, cache)
         | None \<Rightarrow>
             (case generateChunk cx cy worldSeed noiseFunctions (registry cache) of
                Inl e \<Rightarrow> Inl e
              | Inr (chunk, reg') \<Rightarrow>
                  Inr (chunk, \<lparr>chunks = AList.update key chunk (chunks cache),
                              registry = reg'\<rparr>)))"

definition unloadChunk :: "int \<Rightarrow> int \<Rightarrow> ChunkCache \<Rightarrow> ChunkCache" where
  "unloadChunk cx cy cache =
     (let key = getChunkKey cx cy
      in \<lparr>chunks = AList.delete key (chunks cache),
          registry = AList.delete key (registry cache)\<rparr>)"

text \<open>
  \<open>unloadDistantChunks\<close>: the first loop collects the keys \<open>toDelete\<close>, each read back
  into its two coordinates; the second deletes them from \<open>chunks\<close>.
\<close>

definition unloadDistantChunks :: "int \<Rightarrow> int \<Rightarrow> int \<Rightarrow> ChunkCache \<Rightarrow> ChunkCache" where
  "unloadDistantChunks centerCX centerCY keepDistance cache =
     (let toDelete =
            map fst (filter (\<lambda>(key, chunk).
                       let (cx, cy) = key;
                           dx = \<bar>cx - centerCX\<bar>;
                           dy = \<bar>cy - centerCY\<bar>
                       in dx > keepDistance \<or> dy > keepDistance) (chunks cache))
      in cache\<lparr>chunks := fold AList.delete toDelete (chunks cache)\<rparr>)"

definition clear :: "ChunkCache \<Rightarrow> ChunkCache" where
  "clear cache = \<lparr>chunks = [], registry = []\<rparr>"

section \<open>Notions used in the statements\<close>

text \<open>A grid whose columns all have the length of the first.\<close>

definition rectangular :: "Tile list list \<Rightarrow> bool" where
  "rectangular g = (\<forall>col \<in> set g. length col = length (g ! 0))"

text \<open>
  The tiles \<open>calculateTileMask\<close> looks at around \<open>(lx, ly)\<close>, in the order of its
  neighbour table: \<open>None\<close> where the position fails the bounds test.
\<close>

definition neighborTiles :: "Tile list list \<Rightarrow> int \<Rightarrow> int \<Rightarrow> Tile option list" where
  "neighborTiles g lx ly =
     map (\<lambda>(dx, dy, b). if inChunk g (lx + dx) (ly + dy)
                          then Some (g ! nat (lx + dx) ! nat (ly + dy)) else None) neighbors"

text \<open>The bit one neighbour contributes to a mask.\<close>

definition maskBit :: "string \<Rightarrow> Tile list list \<Rightarrow> int \<Rightarrow> int \<Rightarrow> int \<times> int \<times> nat \<Rightarrow> nat \<Rightarrow> nat" where
  "maskBit cb g lx ly nb m =
     (case nb of (dx, dy, b) \<Rightarrow>
        if inChunk g (lx + dx) (ly + dy)
           \<and> canTransition cb (biome (g ! nat (lx + dx) ! nat (ly + dy)))
        then m OR push_bit b 1 else m)"

text \<open>A tile without the three fields that autotiling writes.\<close>

definition beforeAutotile :: "Tile \<Rightarrow> Tile" where
  "beforeAutotile t = t\<lparr>tileMask := None, tileVariant := None, neighborBiomes := []\<rparr>"

text \<open>Sample grids: \<open>w\<close> columns of \<open>h\<close> tiles of one biome, and one with another centre.\<close>

definition uniformGrid :: "string \<Rightarrow> nat \<Rightarrow> nat \<Rightarrow> Tile list list" where
  "uniformGrid b w h = replicate w (replicate h ((newTile 0 0)\<lparr>biome := b\<rparr>))"

definition islandGrid :: "Tile list list" where
  "islandGrid = (uniformGrid ''grass'' 3 3)
     [1 := (replicate 3 ((newTile 0 0)\<lparr>biome := ''grass''\<rparr>))[1 := (newTile 0 0)\<lparr>biome := ''dungeon''\<rparr>]]"

text \<open>
  The structure type a chunk ends up with after placement and the scan, and the grid
  as the tile loop leaves it, before autotiling.
\<close>

definition chunkStructureType :: "int \<Rightarrow> int \<Rightarrow> int \<Rightarrow> registry \<Rightarrow> string option" where
  "chunkStructureType cx cy worldSeed reg =
     (let (structureType0, reg') = placeStructure cx cy worldSeed reg
      in fst (checkNearby cx cy structureType0 reg'))"

definition tilesBeforeAutotile :: "int \<Rightarrow> int \<Rightarrow> int \<Rightarrow> NoiseFunctions \<Rightarrow> string option
    \<Rightarrow> error + Tile list list" where
  "tilesBeforeAutotile cx cy worldSeed noiseFunctions structureType =
     (case precomputeTemplate cx cy worldSeed structureType of
        Inl e \<Rightarrow> Inl e
      | Inr (rotatedTemplate, templateScale) \<Rightarrow>
          collect
            (map (\<lambda>lx. collect
                          (map (\<lambda>ly. generateTile cx cy noiseFunctions structureType
                                        rotatedTemplate lx ly) [0..<CHUNK_SIZE]))
               [0..<CHUNK_SIZE]))"

text \<open>
  A value of the table on which no step of \<open>generateChunk\<close> throws, and a structure type
  that names such a value or nothing.
\<close>

definition safeEntry :: "tableEntry \<Rightarrow> bool" where
  "safeEntry entry = (case entry of ProtoFunction n \<Rightarrow> n = 0 | _ \<Rightarrow> True)"

definition templateSafe :: "string \<Rightarrow> bool" where
  "templateSafe structureType =
     (case STRUCTURE_TEMPLATES structureType of Some entry \<Rightarrow> safeEntry entry | None \<Rightarrow> True)"

text \<open>
  What a call of \<open>generateChunk\<close> shows its caller: the exception or the grid.
\<close>

definition outcome :: "error + Tile list list \<times> registry \<Rightarrow> error + Tile list list" where
  "outcome r = (case r of Inl e \<Rightarrow> Inl e | Inr (grid, reg) \<Rightarrow> Inr grid)"

text \<open>The biomes of the tiles: those of \<open>classifyBiome\<close> and the two structure types.\<close>

definition tileBiomes :: "string list" where
  "tileBiomes = [''water'', ''sand'', ''grass'', ''forest'', ''mountain'', ''snow'', ''desert'',
                 ''village'', ''dungeon'']"

text \<open>The registry entries the scan of chunk \<open>(cx, cy)\<close> can stop at, in order.\<close>

definition nearbyRecords :: "int \<Rightarrow> int \<Rightarrow> registry \<Rightarrow> StructureRecord list" where
  "nearbyRecords cx cy reg = filter (nearChunk cx cy) (map snd reg)"


text \<open>The grid cell of a chunk, the candidate chunk of a cell, and the distance.\<close>

definition gridCell :: "int \<times> int \<Rightarrow> int \<times> int" where
  "gridCell c = (fst c div STRUCTURE_SPACING, snd c div STRUCTURE_SPACING)"

definition candidateChunk :: "int \<Rightarrow> int \<times> int \<Rightarrow> int \<times> int" where
  "candidateChunk worldSeed cell =
     (let (gridX, gridY) = cell;
          gridRng = createSeededRandom (worldSeed + gridX * 918273 + gridY * 192837);
          (gridRng1, r1) = mulberry32 gridRng;
          (gridRng2, r2) = mulberry32 gridRng1
      in (gridX * STRUCTURE_SPACING + \<lfloor>r1 * real_of_int STRUCTURE_SPACING\<rfloor>,
          gridY * STRUCTURE_SPACING + \<lfloor>r2 * real_of_int STRUCTURE_SPACING\<rfloor>))"



text \<open>Sample noise: every sampler constant.\<close>

definition constantNoise :: "real \<Rightarrow> NoiseFunctions" where
  "constantNoise v = \<lparr>noise_elevation = (\<lambda>a b. v), noise_temperature = (\<lambda>a b. v),
                       noise_humidity = (\<lambda>a b. v), noise_scatter = (\<lambda>a b. v)\<rparr>"

text \<open>
  The edges of a graph as pairs of node identities, and the loop body of
  \<open>generateGraph\<close> on identities alone: the generator, the number of nodes so far and the
  edges so far.
\<close>

definition edgeRefs :: "RoadGraph \<Rightarrow> (nat \<times> nat) list" where
  "edgeRefs g = map (\<lambda>e. (node_ref (edge_from e), node_ref (edge_to e))) (edges g)"

definition addNodeRefs :: "int \<times> nat \<times> (nat \<times> nat) list \<Rightarrow> int \<times> nat \<times> (nat \<times> nat) list" where
  "addNodeRefs st =
     (let (rng, n, es) = st;
          (rng1, r1) = mulberry32 rng;
          (rng2, r2) = mulberry32 rng1;
          (rng3, r3) = mulberry32 rng2;
          parentIdx = \<lfloor>r3 * real (n + 1)\<rfloor>
      in (rng3, n + 1, es @ [(nat parentIdx, n)]))"

text \<open>
  A position the guarded assignment of the road callback leaves alone on a map: outside
  the map, or on a tile that has a road tag.
\<close>

definition roadBlocked :: "Tile list list \<Rightarrow> int \<times> int \<Rightarrow> bool" where
  "roadBlocked tileMap p =
     (\<not> (0 \<le> snd p \<and> snd p < int (length tileMap)
         \<and> 0 \<le> fst p \<and> fst p < int (length (tileMap ! nat (snd p)))
         \<and> roadType (tileMap ! nat (snd p) ! nat (fst p)) = None))"

text \<open>A run of guarded assignments, one per position.\<close>

definition markRoads :: "string \<Rightarrow> (int \<times> int) list \<Rightarrow> Tile list list \<Rightarrow> Tile list list" where
  "markRoads rt ps tileMap = fold (\<lambda>p. markRoad rt (fst p) (snd p)) ps tileMap"

text \<open>
  A sample map of two rows of two tiles, the first tile already tagged, and a sample
  graph of one edge from \<open>(0, 0)\<close> to \<open>(1, 1)\<close>.
\<close>

definition sampleRoadMap :: "Tile list list" where
  "sampleRoadMap = [[(newTile 0 0)\<lparr>roadType := Some ''river''\<rparr>, newTile 1 0],
                    [newTile 0 1, newTile 1 1]]"

definition sampleRoadGraph :: RoadGraph where
  "sampleRoadGraph =
     \<lparr>centerX = 0, centerY = 0,
      nodes = [\<lparr>node_ref = 0, node_x = 0, node_y = 0\<rparr>, \<lparr>node_ref = 1, node_x = 1, node_y = 1\<rparr>],
      edges = [\<lparr>edge_from = \<lparr>node_ref = 0, node_x = 0, node_y = 0\<rparr>,
                edge_to = \<lparr>node_ref = 1, node_x = 1, node_y = 1\<rparr>\<rparr>]\<rparr>"

section \<open>Properties of biome classification\<close>

text \<open>
  Claim C8. \<open>classifyBiome\<close> is an ordered first-match cascade: whatever the temperature
  and the humidity, an elevation below \<open>WATER_THRESHOLD\<close> (such as 0.1) gives "water" and
  an elevation above \<open>SNOW_THRESHOLD\<close> (such as 0.95) gives "snow".
\<close>

theorem classifyBiome_cascade:
  "(e < WATER_THRESHOLD \<longrightarrow> classifyBiome e t h = ''water'')
 \<and> (e > SNOW_THRESHOLD \<longrightarrow> classifyBiome e t h = ''snow'')
 \<and> classifyBiome 0.1 t h = ''water''
 \<and> classifyBiome 0.95 t h = ''snow''"
  by (simp add: classifyBiome_def WATER_THRESHOLD_def SNOW_THRESHOLD_def
      SAND_THRESHOLD_def MOUNTAIN_THRESHOLD_def)

theorem classifyBiome_cascade_witness:
  "(0.2 :: real) < WATER_THRESHOLD \<and> classifyBiome 0.2 0.9 0.1 = ''water''
 \<and> (0.93 :: real) > SNOW_THRESHOLD \<and> classifyBiome 0.93 0.9 0.1 = ''snow''"
proof -
  have lo: "(0.2 :: real) < WATER_THRESHOLD" by (simp add: WATER_THRESHOLD_def)
  have hi: "(0.93 :: real) > SNOW_THRESHOLD" by (simp add: SNOW_THRESHOLD_def)
  show ?thesis
    using lo hi classifyBiome_cascade [of "0.2" "0.9" "0.1"]
      classifyBiome_cascade [of "0.93" "0.9" "0.1"]
    by simp
qed

section \<open>Properties of structure templates and placement\<close>

text \<open>
  \<open>canPlaceStructure\<close> on any strings: the source also accepts a village on the name
  "grassland", which is no biome of a tile.
\<close>

lemma canPlaceStructure_iff:
  "canPlaceStructure structureType biomeName isWater \<longleftrightarrow>
     \<not> isWater \<and>
     (structureType = ''village'' \<and> biomeName \<in> {''grass'', ''forest'', ''grassland''}
      \<or> structureType = ''dungeon'' \<and> biomeName \<noteq> ''water'')"
  by (auto simp: canPlaceStructure_def)

text \<open>The biome \<open>generateChunk\<close> passes to \<open>canPlaceStructure\<close> is one of \<open>classifyBiome\<close>.\<close>

lemma classifyBiome_range: "classifyBiome e t h \<in> set tileBiomes"
  by (simp add: classifyBiome_def tileBiomes_def)

text \<open>
  Claim C9. On a biome of the tiles, \<open>canPlaceStructure\<close> is false whenever \<open>isWater\<close>
  holds; otherwise a village is accepted exactly on grass and forest, a dungeon exactly
  on a biome other than water, and no other structure type is accepted. With \<open>isWater\<close>
  computed from the biome, as \<open>generateChunk\<close> calls it, a village is accepted exactly on
  grass and forest and a dungeon exactly off water.
\<close>

theorem canPlaceStructure_rules:
  assumes "biomeName \<in> set tileBiomes"
  shows "(canPlaceStructure structureType biomeName isWater \<longleftrightarrow>
            \<not> isWater \<and>
            (structureType = ''village'' \<and> (biomeName = ''grass'' \<or> biomeName = ''forest'')
             \<or> structureType = ''dungeon'' \<and> biomeName \<noteq> ''water''))
       \<and> (canPlaceStructure ''village'' biomeName (biomeName = ''water'') \<longleftrightarrow>
            biomeName = ''grass'' \<or> biomeName = ''forest'')
       \<and> (canPlaceStructure ''dungeon'' biomeName (biomeName = ''water'') \<longleftrightarrow>
            biomeName \<noteq> ''water'')
       \<and> (isWater \<longrightarrow> \<not> canPlaceStructure structureType biomeName isWater)"
proof -
  from assms have "biomeName \<noteq> ''grassland''" by (auto simp: tileBiomes_def)
  then show ?thesis by (auto simp: canPlaceStructure_iff)
qed

theorem canPlaceStructure_rules_witness:
  "''forest'' \<in> set tileBiomes \<and> ''sand'' \<in> set tileBiomes \<and> ''water'' \<in> set tileBiomes
 \<and> canPlaceStructure ''village'' ''forest'' False
 \<and> \<not> canPlaceStructure ''village'' ''sand'' False
 \<and> canPlaceStructure ''dungeon'' ''sand'' False
 \<and> \<not> canPlaceStructure ''dungeon'' ''sand'' True
 \<and> \<not> canPlaceStructure ''dungeon'' ''water'' False"
proof -
  have m: "''forest'' \<in> set tileBiomes" "''sand'' \<in> set tileBiomes" "''water'' \<in> set tileBiomes"
    by (simp_all add: tileBiomes_def)
  from m canPlaceStructure_rules [OF m(1), of "''village''" False]
    canPlaceStructure_rules [OF m(2), of "''village''" False]
    canPlaceStructure_rules [OF m(2), of "''dungeon''" False]
    canPlaceStructure_rules [OF m(2), of "''dungeon''" True]
    canPlaceStructure_rules [OF m(3), of "''dungeon''" False]
  show ?thesis by simp
qed

subsection \<open>Rotation\<close>

lemma concat_charAt:
  assumes "\<forall>x < n. y < length (f x)"
  shows "concat (map (\<lambda>x. charAt (f x) y) [0..<n]) = map (\<lambda>x. f x ! y) [0..<n]"
  using assms by (induction n) (simp_all add: charAt_def)

lemma rotateOnce_square:
  assumes "squareTemplate t"
  shows "rotateOnce t
         = map (\<lambda>y. map (\<lambda>x. t ! (length t - x - 1) ! y) [0..<length t]) [0..<length t]"
proof -
  have "concat (map (\<lambda>x. charAt (t ! (length t - x - 1)) y) [0..<length t])
        = map (\<lambda>x. t ! (length t - x - 1) ! y) [0..<length t]" if "y < length t" for y
  proof (rule concat_charAt, intro allI impI)
    fix x assume "x < length t"
    then have "t ! (length t - x - 1) \<in> set t" by simp
    with assms that show "y < length (t ! (length t - x - 1))"
      by (simp add: squareTemplate_def)
  qed
  then show ?thesis by (simp add: rotateOnce_def Let_def)
qed

lemma rotateOnce_length: "length (rotateOnce t) = length t"
  by (simp add: rotateOnce_def Let_def)

lemma rotateOnce_keeps_square:
  assumes "squareTemplate t" shows "squareTemplate (rotateOnce t)"
  using assms by (auto simp: rotateOnce_square squareTemplate_def)

lemma rotateOnce_nth:
  assumes "squareTemplate t" "y < length t" "x < length t"
  shows "rotateOnce t ! y ! x = t ! (length t - x - 1) ! y"
  using assms by (simp add: rotateOnce_square)

lemma rotateOnce_four:
  assumes sq: "squareTemplate t"
  shows "rotateOnce (rotateOnce (rotateOnce (rotateOnce t))) = t"
proof (rule nth_equalityI)
  show "length (rotateOnce (rotateOnce (rotateOnce (rotateOnce t)))) = length t"
    by (simp add: rotateOnce_length)
next
  fix y assume "y < length (rotateOnce (rotateOnce (rotateOnce (rotateOnce t))))"
  then have y: "y < length t" by (simp add: rotateOnce_length)
  note s1 = rotateOnce_keeps_square [OF sq]
  note s2 = rotateOnce_keeps_square [OF s1]
  note s3 = rotateOnce_keeps_square [OF s2]
  note s4 = rotateOnce_keeps_square [OF s3]
  show "rotateOnce (rotateOnce (rotateOnce (rotateOnce t))) ! y = t ! y"
  proof (rule nth_equalityI)
    from s4 y sq
    show "length (rotateOnce (rotateOnce (rotateOnce (rotateOnce t))) ! y) = length (t ! y)"
      by (simp add: squareTemplate_def rotateOnce_length)
  next
    fix x assume "x < length (rotateOnce (rotateOnce (rotateOnce (rotateOnce t))) ! y)"
    with s4 y have x: "x < length t" by (simp add: squareTemplate_def rotateOnce_length)
    from x y have a: "length t - x - 1 < length t" "length t - y - 1 < length t"
      by simp_all
    from x y have b: "length t - (length t - x - 1) - 1 = x"
      "length t - (length t - y - 1) - 1 = y" by simp_all
    show "rotateOnce (rotateOnce (rotateOnce (rotateOnce t))) ! y ! x = t ! y ! x"
      using x y a b s1 s2 s3 sq by (simp add: rotateOnce_nth rotateOnce_length)
  qed
qed

lemma js_rem_4 [simp]: "js_rem 4 4 = 0" "js_rem 0 4 = 0" "js_rem 1 4 = 1"
  by (simp_all add: js_rem_def)

lemma js_rem_idem: "js_rem (js_rem k 4) 4 = js_rem k 4"
proof -
  define m where "m = \<bar>k\<bar> mod 4"
  have m: "0 \<le> m" "m < 4" by (simp_all add: m_def)
  have "js_rem (sgn k * m) 4 = sgn k * m"
    using m by (cases "m = 0") (auto simp: js_rem_def sgn_if)
  then show ?thesis by (simp add: js_rem_def m_def)
qed

text \<open>
  Claim C10. On a square character grid \<open>rotateTemplate\<close> takes its rotation count
  modulo 4 (with the remainder of the language): four rotations requested at once and
  none both return the template, four single quarter turns in a row return it
  row for row, and any count gives what its remainder gives.
\<close>

theorem rotateTemplate_mod4:
  assumes "squareTemplate t"
  shows "rotateTemplate t 4 = t
       \<and> rotateTemplate t 0 = t
       \<and> rotateTemplate (rotateTemplate (rotateTemplate (rotateTemplate t 1) 1) 1) 1 = t
       \<and> rotateTemplate t k = rotateTemplate t (js_rem k 4)"
  using rotateOnce_four [OF assms]
  by (simp add: rotateTemplate_def js_rem_idem)

theorem rotateTemplate_mod4_witness:
  "squareTemplate [''ab'', ''cd'']
   \<and> rotateTemplate [''ab'', ''cd''] 4 = [''ab'', ''cd'']
   \<and> rotateTemplate [''ab'', ''cd''] 0 = [''ab'', ''cd'']
   \<and> rotateTemplate (rotateTemplate (rotateTemplate (rotateTemplate [''ab'', ''cd''] 1) 1) 1) 1
       = [''ab'', ''cd'']
   \<and> rotateTemplate [''ab'', ''cd''] 6 = rotateTemplate [''ab'', ''cd''] 2
   \<and> rotateTemplate [''ab'', ''cd''] 1 = [''ca'', ''db'']"
proof -
  have sq: "squareTemplate [''ab'', ''cd'']" by (simp add: squareTemplate_def)
  have r: "js_rem 6 4 = 2" by (simp add: js_rem_def)
  have one: "rotateTemplate [''ab'', ''cd''] 1 = [''ca'', ''db'']"
    by (simp add: rotateTemplate_def rotateOnce_def charAt_def Let_def)
  show ?thesis using sq one rotateTemplate_mod4 [OF sq, of 6] by (simp add: r)
qed

section \<open>Properties of autotiling\<close>

lemma inChunk_rect:
  assumes "rectangular g" "inChunk g nx ny"
  shows "nat nx < length g" "nat ny < length (g ! nat nx)"
proof -
  from assms(2) show a: "nat nx < length g" by (auto simp: inChunk_def)
  then have "g ! nat nx \<in> set g" by simp
  with assms(1) have "length (g ! nat nx) = length (g ! 0)" by (simp add: rectangular_def)
  moreover from assms(2) have "nat ny < length (g ! 0)"
    by (cases g) (auto simp: inChunk_def)
  ultimately show "nat ny < length (g ! nat nx)" by simp
qed

lemma maskStep_rect:
  assumes "rectangular g"
  shows "\<exists>nbs'. maskStep cb g lx ly nb (m, nbs) = Inr (maskBit cb g lx ly nb m, nbs')"
proof -
  obtain dx dy b where nb: "nb = (dx, dy, b)" by (cases nb) auto
  show ?thesis
  proof (cases "inChunk g (lx + dx) (ly + dy)")
    case True
    from inChunk_rect(2) [OF assms True] show ?thesis
      using True by (simp add: maskStep_def maskBit_def nb Let_def)
  next
    case False
    then show ?thesis by (simp add: maskStep_def maskBit_def nb)
  qed
qed

lemma maskLoop_rect:
  assumes "rectangular g"
  shows "\<exists>nbs'. maskLoop cb g lx ly ns (m, nbs) = Inr (fold (maskBit cb g lx ly) ns m, nbs')"
proof (induction ns arbitrary: m nbs)
  case Nil
  show ?case by simp
next
  case (Cons nb ns)
  from maskStep_rect [OF assms, of cb lx ly nb m nbs]
  obtain nbs1 where "maskStep cb g lx ly nb (m, nbs) = Inr (maskBit cb g lx ly nb m, nbs1)" ..
  with Cons.IH [of "maskBit cb g lx ly nb m" nbs1] show ?case by simp
qed

lemma calculateTileMask_rect:
  assumes "rectangular g"
  shows "\<exists>nbs. calculateTileMask c g lx ly = Inr (fold (maskBit (biome c) g lx ly) neighbors 0, nbs)"
  using maskLoop_rect [OF assms] by (simp add: calculateTileMask_def)

lemma canTransition_refl: "canTransition b b"
  by (simp add: canTransition_def)

lemma neighborTiles_mem:
  assumes "(dx, dy, b) \<in> set neighbors"
  shows "(if inChunk g (lx + dx) (ly + dy)
          then Some (g ! nat (lx + dx) ! nat (ly + dy)) else None) \<in> set (neighborTiles g lx ly)"
proof -
  have "(\<lambda>(dx, dy, b). if inChunk g (lx + dx) (ly + dy)
                          then Some (g ! nat (lx + dx) ! nat (ly + dy)) else None) (dx, dy, b)
        \<in> set (neighborTiles g lx ly)"
    unfolding neighborTiles_def set_map using assms by (rule imageI)
  then show ?thesis by simp
qed

lemma maskBit_same:
  assumes "\<forall>t \<in> set (neighborTiles g lx ly). \<exists>n. t = Some n \<and> biome n = cb"
    and "(dx, dy, b) \<in> set neighbors"
  shows "maskBit cb g lx ly (dx, dy, b) m = m OR push_bit b 1"
proof -
  from assms(1) neighborTiles_mem [OF assms(2), of g lx ly]
  obtain n where n: "(if inChunk g (lx + dx) (ly + dy)
          then Some (g ! nat (lx + dx) ! nat (ly + dy)) else None) = Some n" "biome n = cb"
    by blast
  then have "inChunk g (lx + dx) (ly + dy)" "biome (g ! nat (lx + dx) ! nat (ly + dy)) = cb"
    by (auto split: if_splits)
  then show ?thesis by (simp add: maskBit_def canTransition_refl)
qed

lemma maskBit_incompatible:
  assumes "\<forall>t \<in> set (neighborTiles g lx ly). \<forall>n. t = Some n \<longrightarrow> \<not> canTransition cb (biome n)"
    and "(dx, dy, b) \<in> set neighbors"
  shows "maskBit cb g lx ly (dx, dy, b) m = m"
proof (cases "inChunk g (lx + dx) (ly + dy)")
  case True
  with assms(1) neighborTiles_mem [OF assms(2), of g lx ly]
  have "\<not> canTransition cb (biome (g ! nat (lx + dx) ! nat (ly + dy)))" by auto
  then show ?thesis by (simp add: maskBit_def)
next
  case False
  then show ?thesis by (simp add: maskBit_def)
qed

lemma neighbors_mem:
  "(0, -1, 0) \<in> set neighbors" "(1, -1, 1) \<in> set neighbors" "(1, 0, 2) \<in> set neighbors"
  "(1, 1, 3) \<in> set neighbors" "(0, 1, 4) \<in> set neighbors" "(-1, 1, 5) \<in> set neighbors"
  "(-1, 0, 6) \<in> set neighbors" "(-1, -1, 7) \<in> set neighbors"
  by (simp_all add: neighbors_def)

lemma fold_neighbors:
  "fold f neighbors m = f (-1, -1, 7) (f (-1, 0, 6) (f (-1, 1, 5) (f (0, 1, 4)
     (f (1, 1, 3) (f (1, 0, 2) (f (1, -1, 1) (f (0, -1, 0) m)))))))"
  by (simp add: neighbors_def)

lemma mask_all:
  assumes "\<forall>t \<in> set (neighborTiles g lx ly). \<exists>n. t = Some n \<and> biome n = cb"
  shows "fold (maskBit cb g lx ly) neighbors 0 = 255"
proof -
  note bits = neighbors_mem [THEN maskBit_same [OF assms]]
  have "fold (maskBit cb g lx ly) neighbors 0
        = (((((((0 OR push_bit 0 1) OR push_bit 1 1) OR push_bit 2 1) OR push_bit 3 1)
             OR push_bit 4 1) OR push_bit 5 1) OR push_bit 6 1) OR push_bit 7 1"
    unfolding fold_neighbors by (simp only: bits)
  also have "\<dots> = 255" by simp
  finally show ?thesis .
qed

lemma mask_none:
  assumes "\<forall>t \<in> set (neighborTiles g lx ly). \<forall>n. t = Some n \<longrightarrow> \<not> canTransition cb (biome n)"
  shows "fold (maskBit cb g lx ly) neighbors 0 = 0"
  unfolding fold_neighbors
  by (simp only: neighbors_mem [THEN maskBit_incompatible [OF assms]])

lemma TILE_VARIANTS_0: "TILE_VARIANTS 0 = Some \<lparr>variant_id = ''full'', variant_rotation = 0, variant_priority = 1\<rparr>"
  by (simp add: TILE_VARIANTS_def)
lemma TILE_VARIANTS_255: "TILE_VARIANTS 255 = Some \<lparr>variant_id = ''corners'', variant_rotation = 0, variant_priority = 2\<rparr>"
  by (simp add: TILE_VARIANTS_def)

lemma getVariantFromMask_fallback: "TILE_VARIANTS m = None \<Longrightarrow> getVariantFromMask m = TILE_VARIANTS 0"
  by (auto simp: getVariantFromMask_def TILE_VARIANTS_255)

text \<open>
  Claim C6, as the source has it. On a rectangular grid, a tile all of whose eight
  neighbour positions pass the bounds test and hold the biome of the centre gets the
  mask \<open>0xFF\<close>, which resolves to the table's entry for \<open>0xFF\<close> (the variant "corners");
  a tile with no compatible neighbour gets the mask \<open>0x00\<close>; and a mask without an entry
  of its own resolves to the table's entry for \<open>0x00\<close> (the variant "full", that of a
  tile with no compatible neighbour), not to the entry for \<open>0xFF\<close>.
\<close>

theorem autotile_mask_rules:
  "(rectangular g \<and> (\<forall>t \<in> set (neighborTiles g lx ly). \<exists>n. t = Some n \<and> biome n = biome c)
      \<longrightarrow> (\<exists>nbs. calculateTileMask c g lx ly = Inr (0xFF, nbs))
          \<and> getVariantFromMask 0xFF = TILE_VARIANTS 0xFF)
 \<and> (rectangular g
      \<and> (\<forall>t \<in> set (neighborTiles g lx ly). \<forall>n. t = Some n \<longrightarrow> \<not> canTransition (biome c) (biome n))
      \<longrightarrow> (\<exists>nbs. calculateTileMask c g lx ly = Inr (0x00, nbs)))
 \<and> (TILE_VARIANTS m = None \<longrightarrow> getVariantFromMask m = TILE_VARIANTS 0x00)
 \<and> TILE_VARIANTS 0xFF = Some \<lparr>variant_id = ''corners'', variant_rotation = 0, variant_priority = 2\<rparr>
 \<and> TILE_VARIANTS 0x00 = Some \<lparr>variant_id = ''full'', variant_rotation = 0, variant_priority = 1\<rparr>"
proof (intro conjI impI)
  assume a: "rectangular g \<and> (\<forall>t \<in> set (neighborTiles g lx ly). \<exists>n. t = Some n \<and> biome n = biome c)"
  then have "fold (maskBit (biome c) g lx ly) neighbors 0 = 255" by (intro mask_all) simp
  with calculateTileMask_rect [of g c lx ly] a
  show "\<exists>nbs. calculateTileMask c g lx ly = Inr (0xFF, nbs)" by simp
next
  show "getVariantFromMask 0xFF = TILE_VARIANTS 0xFF"
    by (simp add: getVariantFromMask_def TILE_VARIANTS_255)
next
  assume a: "rectangular g
      \<and> (\<forall>t \<in> set (neighborTiles g lx ly). \<forall>n. t = Some n \<longrightarrow> \<not> canTransition (biome c) (biome n))"
  then have "fold (maskBit (biome c) g lx ly) neighbors 0 = 0" by (intro mask_none) simp
  with calculateTileMask_rect [of g c lx ly] a
  show "\<exists>nbs. calculateTileMask c g lx ly = Inr (0x00, nbs)" by simp
next
  assume "TILE_VARIANTS m = None"
  then show "getVariantFromMask m = TILE_VARIANTS 0x00" by (rule getVariantFromMask_fallback)
qed (rule TILE_VARIANTS_255 TILE_VARIANTS_0)+


lemma rectangular_uniformGrid: "rectangular (uniformGrid b w h)"
  by (simp add: rectangular_def uniformGrid_def)

lemma rectangular_islandGrid: "rectangular islandGrid"
  by (auto simp: rectangular_def islandGrid_def uniformGrid_def numeral_3_eq_3)

lemma neighborTiles_uniformGrid:
  "map (map_option biome) (neighborTiles (uniformGrid ''grass'' 3 3) 1 1) = replicate 8 (Some ''grass'')"
  by (simp add: neighborTiles_def neighbors_def inChunk_def uniformGrid_def numeral_eq_Suc)

lemma neighborTiles_islandGrid:
  "map (map_option biome) (neighborTiles islandGrid 1 1) = replicate 8 (Some ''grass'')"
  by (simp add: neighborTiles_def neighbors_def inChunk_def islandGrid_def uniformGrid_def numeral_eq_Suc)

lemma map_replicateD:
  assumes "map f xs = replicate n v" "t \<in> set xs"
  shows "f t = v"
proof -
  from assms(2) have "f t \<in> set (map f xs)" by simp
  then have "f t \<in> set (replicate n v)" by (simp only: assms(1))
  then show ?thesis by (auto simp: set_replicate_conv_if split: if_splits)
qed

theorem autotile_mask_rules_witness:
  "rectangular (uniformGrid ''grass'' 3 3)
 \<and> map (map_option biome) (neighborTiles (uniformGrid ''grass'' 3 3) 1 1) = replicate 8 (Some ''grass'')
 \<and> (\<exists>nbs. calculateTileMask (uniformGrid ''grass'' 3 3 ! 1 ! 1) (uniformGrid ''grass'' 3 3) 1 1
            = Inr (0xFF, nbs))
 \<and> rectangular islandGrid
 \<and> biome (islandGrid ! 1 ! 1) = ''dungeon''
 \<and> map (map_option biome) (neighborTiles islandGrid 1 1) = replicate 8 (Some ''grass'')
 \<and> \<not> canTransition ''dungeon'' ''grass''
 \<and> (\<exists>nbs. calculateTileMask (islandGrid ! 1 ! 1) islandGrid 1 1 = Inr (0x00, nbs))
 \<and> TILE_VARIANTS 0x11 = None
 \<and> getVariantFromMask 0x11 = TILE_VARIANTS 0x00"
proof -
  let ?g = "uniformGrid ''grass'' 3 3"
  have c: "biome (?g ! 1 ! 1) = ''grass''" by (simp add: uniformGrid_def)
  have d: "biome (islandGrid ! 1 ! 1) = ''dungeon''" by (simp add: islandGrid_def uniformGrid_def)
  have nt: "\<not> canTransition ''dungeon'' ''grass''"
    by (simp add: canTransition_def BIOME_GROUPS_def BIOME_TRANSITIONS_def)
  have h1: "\<forall>t \<in> set (neighborTiles ?g 1 1). \<exists>n. t = Some n \<and> biome n = biome (?g ! 1 ! 1)"
  proof
    fix t assume "t \<in> set (neighborTiles ?g 1 1)"
    then have "map_option biome t = Some ''grass''"
      by (rule map_replicateD [OF neighborTiles_uniformGrid])
    then show "\<exists>n. t = Some n \<and> biome n = biome (?g ! 1 ! 1)" unfolding c by auto
  qed
  have h2: "\<forall>t \<in> set (neighborTiles islandGrid 1 1). \<forall>n. t = Some n
              \<longrightarrow> \<not> canTransition (biome (islandGrid ! 1 ! 1)) (biome n)"
  proof (intro ballI allI impI)
    fix t n assume "t \<in> set (neighborTiles islandGrid 1 1)" "t = Some n"
    then have "map_option biome t = Some ''grass''"
      by (auto dest: map_replicateD [OF neighborTiles_islandGrid])
    with \<open>t = Some n\<close> show "\<not> canTransition (biome (islandGrid ! 1 ! 1)) (biome n)"
      unfolding d using nt by simp
  qed
  have h3: "TILE_VARIANTS 0x11 = None" by (simp add: TILE_VARIANTS_def)
  from autotile_mask_rules [of ?g 1 1 "?g ! 1 ! 1" "0x11"] h1 h3 rectangular_uniformGrid
  have a: "\<exists>nbs. calculateTileMask (?g ! 1 ! 1) ?g 1 1 = Inr (0xFF, nbs)"
    and e: "getVariantFromMask 0x11 = TILE_VARIANTS 0x00" by blast+
  from autotile_mask_rules [of islandGrid 1 1 "islandGrid ! 1 ! 1" "0x11"] h2 rectangular_islandGrid
  have b: "\<exists>nbs. calculateTileMask (islandGrid ! 1 ! 1) islandGrid 1 1 = Inr (0x00, nbs)" by blast
  show ?thesis
    using a b e h3 d nt rectangular_uniformGrid rectangular_islandGrid
      neighborTiles_uniformGrid neighborTiles_islandGrid by blast
qed

text \<open>
  The claim as the specification words it gives one and the same variant to the mask
  \<open>0xFF\<close> and to every mask without an entry. The mask \<open>0x11\<close> has no entry, and
  resolves to another variant than \<open>0xFF\<close> does.
\<close>

theorem getVariantFromMask_fallback_is_full:
  "TILE_VARIANTS 0x11 = None
 \<and> getVariantFromMask 0x11 = Some \<lparr>variant_id = ''full'', variant_rotation = 0, variant_priority = 1\<rparr>
 \<and> getVariantFromMask 0xFF = Some \<lparr>variant_id = ''corners'', variant_rotation = 0, variant_priority = 2\<rparr>
 \<and> getVariantFromMask 0x11 \<noteq> getVariantFromMask 0xFF"
  by (simp add: getVariantFromMask_def TILE_VARIANTS_def)

subsection \<open>The pass over a whole grid\<close>

lemma rectangular_iff:
  "rectangular g \<longleftrightarrow> (\<forall>i < length g. map length g ! i = map length g ! 0)"
proof (cases g)
  case Nil
  then show ?thesis by (simp add: rectangular_def)
next
  case (Cons c cs)
  then have "0 < length g" by simp
  then show ?thesis by (auto simp: rectangular_def all_set_conv_all_nth)
qed

lemma sameTerrain_lengths:
  assumes "map (map f) g' = map (map f) g"
  shows "map length g' = map length g"
proof -
  have "map length (map (map f) g') = map length (map (map f) g)" by (simp only: assms)
  then show ?thesis by (simp add: comp_def)
qed

lemma sameTerrain_rectangular:
  assumes "map (map f) g' = map (map f) g" "rectangular g"
  shows "rectangular g'"
proof -
  from sameTerrain_lengths [OF assms(1)] have l: "map length g' = map length g" .
  then have "length g' = length g" by (metis length_map)
  with l assms(2) show ?thesis by (simp add: rectangular_iff)
qed

lemma update_tile_terrain:
  assumes "x < length g" "y < length (g ! x)" "beforeAutotile t' = beforeAutotile (g ! x ! y)"
  shows "map (map beforeAutotile) (g[x := (g ! x)[y := t']]) = map (map beforeAutotile) g"
proof -
  have "map beforeAutotile ((g ! x)[y := t']) = map beforeAutotile (g ! x)"
    using assms(2,3) by (simp add: map_update list_update_same_conv)
  then have "map (map beforeAutotile) (g[x := (g ! x)[y := t']])
             = (map (map beforeAutotile) g)[x := map beforeAutotile (g ! x)]"
    by (simp add: map_update)
  also have "\<dots> = map (map beforeAutotile) g"
    using assms(1) by (simp add: list_update_same_conv)
  finally show ?thesis .
qed

lemma autotileAt_ok:
  assumes "rectangular g" "x < length g" "y < length (g ! x)"
  shows "\<exists>g'. autotileAt g (x, y) = Inr g' \<and> map (map beforeAutotile) g' = map (map beforeAutotile) g"
proof (cases "structure (g ! x ! y) = None")
  case False
  have "beforeAutotile ((g ! x ! y)\<lparr>tileVariant := None\<rparr>) = beforeAutotile (g ! x ! y)"
    by (simp add: beforeAutotile_def)
  from update_tile_terrain [OF assms(2,3) this] False assms(3) show ?thesis
    by (simp add: autotileAt_def Let_def)
next
  case True
  from calculateTileMask_rect [OF assms(1), of "g ! x ! y" "int x" "int y"]
  obtain m nbs where c: "calculateTileMask (g ! x ! y) g (int x) (int y) = Inr (m, nbs)" by blast
  have "beforeAutotile ((g ! x ! y)\<lparr>neighborBiomes := nbs, tileVariant := getVariantFromMask m,
          tileMask := Some m\<rparr>) = beforeAutotile (g ! x ! y)"
    by (simp add: beforeAutotile_def)
  from update_tile_terrain [OF assms(2,3) this] True assms(3) c show ?thesis
    by (simp add: autotileAt_def Let_def)
qed

lemma autotileLoop_ok:
  assumes "rectangular g" "\<forall>(x, y) \<in> set ps. x < length g \<and> y < length (g ! 0)"
  shows "\<exists>g'. autotileLoop ps g = Inr g' \<and> map (map beforeAutotile) g' = map (map beforeAutotile) g"
  using assms
proof (induction ps arbitrary: g)
  case Nil
  show ?case by simp
next
  case (Cons p ps)
  obtain x y where p: "p = (x, y)" by (cases p)
  from Cons.prems p have x: "x < length g" and y0: "y < length (g ! 0)" by auto
  from x Cons.prems(1) have "length (g ! x) = length (g ! 0)" by (simp add: rectangular_def)
  with y0 have y: "y < length (g ! x)" by simp
  from autotileAt_ok [OF Cons.prems(1) x y]
  obtain g1 where g1: "autotileAt g (x, y) = Inr g1"
    "map (map beforeAutotile) g1 = map (map beforeAutotile) g" by blast
  from sameTerrain_rectangular [OF g1(2) Cons.prems(1)] have r1: "rectangular g1" .
  from sameTerrain_lengths [OF g1(2)] have l: "map length g1 = map length g" .
  then have len: "length g1 = length g" by (metis length_map)
  have "length (g1 ! 0) = length (g ! 0)"
  proof (cases "g = []")
    case True with len show ?thesis by simp
  next
    case False
    with len have "0 < length g" "0 < length g1" by auto
    then have "length (g1 ! 0) = map length g1 ! 0" "length (g ! 0) = map length g ! 0" by simp_all
    with l show ?thesis by simp
  qed
  with Cons.prems(2) len have "\<forall>(x, y) \<in> set ps. x < length g1 \<and> y < length (g1 ! 0)" by auto
  from Cons.IH [OF r1 this] obtain g' where "autotileLoop ps g1 = Inr g'"
    "map (map beforeAutotile) g' = map (map beforeAutotile) g1" by blast
  with g1 p show ?case by simp
qed

lemma applyChunkAutotiling_ok:
  assumes "rectangular g"
  shows "\<exists>g'. applyChunkAutotiling g = Inr g' \<and> map (map beforeAutotile) g' = map (map beforeAutotile) g"
proof -
  have h: "(case g of [] \<Rightarrow> 0 | col # _ \<Rightarrow> length col) \<le> length (g ! 0)" by (cases g) simp_all
  have "\<forall>(x, y) \<in> set (concat (map (\<lambda>x. map (\<lambda>y. (x, y))
            [0..<(case g of [] \<Rightarrow> 0 | col # _ \<Rightarrow> length col)]) [0..<length g])).
          x < length g \<and> y < length (g ! 0)"
    using h by auto
  from autotileLoop_ok [OF assms this] show ?thesis
    by (simp add: applyChunkAutotiling_def Let_def)
qed

section \<open>Properties of the seeded generator\<close>

lemma word_fraction_range:
  fixes w :: "32 word"
  shows "0 \<le> real (unat w) / 4294967296" "real (unat w) / 4294967296 < 1"
proof -
  have "unat w < 4294967296"
    using unsigned_less [of w, where 'a = nat] by simp
  then have "real (unat w) < real 4294967296" by (simp only: of_nat_less_iff)
  then show "real (unat w) / 4294967296 < 1" by (simp del: of_nat_unat)
  have "0 \<le> real (unat w)" by (rule of_nat_0_le_iff)
  then show "0 \<le> real (unat w) / 4294967296" by (rule divide_nonneg_nonneg) simp
qed

lemma mulberry32_range: "0 \<le> snd (mulberry32 a)" "snd (mulberry32 a) < 1"
  unfolding mulberry32_def Let_def snd_conv by (rule word_fraction_range)+

section \<open>Properties of chunk generation\<close>

lemma collect_Inr: "collect rs = Inr vs \<Longrightarrow> rs = map Inr vs"
  by (induction rs arbitrary: vs) (auto split: sum.splits)

lemma collect_all_Inr:
  assumes "\<And>r. r \<in> set rs \<Longrightarrow> \<exists>v. r = Inr v"
  shows "\<exists>vs. collect rs = Inr vs"
  using assms
proof (induction rs)
  case Nil
  show ?case by simp
next
  case (Cons r rs)
  from Cons.prems [of r] obtain v where v: "r = Inr v" by auto
  from Cons.IH Cons.prems obtain vs where "collect rs = Inr vs" by auto
  with v show ?case by simp
qed

lemma collect_upt:
  assumes "collect (map f [0..<n]) = Inr vs"
  shows "length vs = n" and "i < n \<Longrightarrow> f i = Inr (vs ! i)"
proof -
  from collect_Inr [OF assms] have m: "map f [0..<n] = map Inr vs" .
  from arg_cong [OF m, of length] show l: "length vs = n" by simp
  assume i: "i < n"
  from arg_cong [OF m, of "\<lambda>rs. rs ! i"] i l show "f i = Inr (vs ! i)" by simp
qed

lemma square_rectangular:
  assumes "map length g = replicate n n"
  shows "rectangular g"
proof -
  have "length (map length g) = length (replicate n n)" by (simp only: assms)
  then have "length g = n" by simp
  then show ?thesis by (simp add: rectangular_iff assms)
qed

text \<open>When the tile loop ends, every tile of the grid is the one its body returned.\<close>

lemma tilesBeforeAutotile_Inr:
  assumes "tilesBeforeAutotile cx cy ws nf st = Inr raw"
  shows "\<exists>rt ts. precomputeTemplate cx cy ws st = Inr (rt, ts)
          \<and> map length raw = replicate CHUNK_SIZE CHUNK_SIZE
          \<and> (\<forall>x < CHUNK_SIZE. \<forall>y < CHUNK_SIZE.
                generateTile cx cy nf st rt x y = Inr (raw ! x ! y))"
proof -
  from assms obtain rt ts where p: "precomputeTemplate cx cy ws st = Inr (rt, ts)"
    and c: "collect (map (\<lambda>lx. collect (map (\<lambda>ly. generateTile cx cy nf st rt lx ly)
                                            [0..<CHUNK_SIZE])) [0..<CHUNK_SIZE]) = Inr raw"
    by (auto simp: tilesBeforeAutotile_def split: sum.splits)
  note l = collect_upt(1) [OF c]
  have col: "collect (map (\<lambda>ly. generateTile cx cy nf st rt x ly) [0..<CHUNK_SIZE])
             = Inr (raw ! x)" if "x < CHUNK_SIZE" for x
    using collect_upt(2) [OF c that] .
  have "length (raw ! x) = CHUNK_SIZE" if "x < CHUNK_SIZE" for x
    using collect_upt(1) [OF col [OF that]] .
  with l have s: "map length raw = replicate CHUNK_SIZE CHUNK_SIZE"
    by (intro nth_equalityI) simp_all
  have "generateTile cx cy nf st rt x y = Inr (raw ! x ! y)"
    if "x < CHUNK_SIZE" "y < CHUNK_SIZE" for x y
    using collect_upt(2) [OF col [OF that(1)] that(2)] .
  with p s show ?thesis by blast
qed

lemma generateChunk_unfold:
  "generateChunk cx cy ws nf reg =
     (case tilesBeforeAutotile cx cy ws nf (chunkStructureType cx cy ws reg) of
        Inl e \<Rightarrow> Inl e
      | Inr chunk \<Rightarrow>
          (case applyChunkAutotiling chunk of
             Inl e \<Rightarrow> Inl e
           | Inr chunk' \<Rightarrow> Inr (chunk', snd (placeStructure cx cy ws reg))))"
proof -
  obtain st0 reg' where p: "placeStructure cx cy ws reg = (st0, reg')" by (cases "placeStructure cx cy ws reg")
  obtain st sc nb where c: "checkNearby cx cy st0 reg' = (st, sc, nb)" by (cases "checkNearby cx cy st0 reg'")
  show ?thesis
    by (simp add: generateChunk_def chunkStructureType_def tilesBeforeAutotile_def p c
        split: sum.splits prod.splits)
qed

text \<open>Autotiling does not throw on the grid of the tile loop.\<close>

lemma generateChunk_of_tiles:
  assumes "tilesBeforeAutotile cx cy ws nf (chunkStructureType cx cy ws reg) = Inr raw"
  shows "\<exists>g. generateChunk cx cy ws nf reg = Inr (g, snd (placeStructure cx cy ws reg))
            \<and> map (map beforeAutotile) g = map (map beforeAutotile) raw"
proof -
  from tilesBeforeAutotile_Inr [OF assms]
  have "map length raw = replicate CHUNK_SIZE CHUNK_SIZE" by blast
  then have "rectangular raw" by (rule square_rectangular)
  from applyChunkAutotiling_ok [OF this]
  obtain g where "applyChunkAutotiling raw = Inr g"
    "map (map beforeAutotile) g = map (map beforeAutotile) raw" by blast
  with assms show ?thesis by (simp add: generateChunk_unfold)
qed

lemma generateChunk_Inr:
  assumes "generateChunk cx cy ws nf reg = Inr (g, reg')"
  shows "reg' = snd (placeStructure cx cy ws reg)"
    and "\<exists>raw. tilesBeforeAutotile cx cy ws nf (chunkStructureType cx cy ws reg) = Inr raw
           \<and> map (map beforeAutotile) g = map (map beforeAutotile) raw"
proof -
  from assms obtain raw
    where r: "tilesBeforeAutotile cx cy ws nf (chunkStructureType cx cy ws reg) = Inr raw"
    by (auto simp: generateChunk_unfold split: sum.splits)
  from generateChunk_of_tiles [OF r] assms
  have "reg' = snd (placeStructure cx cy ws reg)
        \<and> map (map beforeAutotile) g = map (map beforeAutotile) raw" by auto
  with r show "reg' = snd (placeStructure cx cy ws reg)"
    and "\<exists>raw. tilesBeforeAutotile cx cy ws nf (chunkStructureType cx cy ws reg) = Inr raw
           \<and> map (map beforeAutotile) g = map (map beforeAutotile) raw" by blast+
qed

text \<open>The roll of a chunk does not read the registry.\<close>

lemma placeStructure_fst: "fst (placeStructure cx cy ws reg) = fst (placeStructure cx cy ws [])"
  by (simp add: placeStructure_def Let_def split: prod.splits option.splits)

lemma placeStructure_cases:
  "placeStructure cx cy ws reg = (None, reg)
   \<or> (\<exists>t. t \<in> {''village'', ''dungeon''}
          \<and> candidateChunk ws (gridCell (cx, cy)) = (cx, cy)
          \<and> placeStructure cx cy ws reg
              = (Some t, AList.update (cx, cy) \<lparr>struct_type = t, struct_cx = cx, struct_cy = cy\<rparr> reg))"
  by (auto simp: placeStructure_def candidateChunk_def gridCell_def getStructureKey_def Let_def
      STRUCTURE_SPACING_def floor_divide_of_int_eq
      split: prod.splits option.splits if_splits)

lemma update_update_same: "AList.update k v (AList.update k v al) = AList.update k v al"
  by (induction al) auto

lemma placeStructure_again:
  "placeStructure cx cy ws (snd (placeStructure cx cy ws reg)) = placeStructure cx cy ws reg"
proof -
  from placeStructure_cases [of cx cy ws reg] show ?thesis
  proof
    assume "placeStructure cx cy ws reg = (None, reg)" then show ?thesis by simp
  next
    assume "\<exists>t. t \<in> {''village'', ''dungeon''}
          \<and> candidateChunk ws (gridCell (cx, cy)) = (cx, cy)
          \<and> placeStructure cx cy ws reg
              = (Some t, AList.update (cx, cy) \<lparr>struct_type = t, struct_cx = cx, struct_cy = cy\<rparr> reg)"
    then obtain t where t: "placeStructure cx cy ws reg
        = (Some t, AList.update (cx, cy) \<lparr>struct_type = t, struct_cx = cx, struct_cy = cy\<rparr> reg)"
      by blast
    let ?r = "AList.update (cx, cy) \<lparr>struct_type = t, struct_cx = cx, struct_cy = cy\<rparr> reg"
    from placeStructure_fst [of cx cy ws ?r] placeStructure_fst [of cx cy ws reg] t
    have f: "fst (placeStructure cx cy ws ?r) = Some t" by simp
    from placeStructure_cases [of cx cy ws ?r] f
    have "placeStructure cx cy ws ?r = (Some t, AList.update (cx, cy)
             \<lparr>struct_type = t, struct_cx = cx, struct_cy = cy\<rparr> ?r)" by auto
    with t show ?thesis by (simp add: update_update_same)
  qed
qed

lemma checkNearby_fst:
  "fst (checkNearby cx cy st reg)
   = (if truthy st then st
      else case nearbyRecords cx cy reg of [] \<Rightarrow> st | d # _ \<Rightarrow> Some (struct_type d))"
  by (induction reg) (auto simp: nearbyRecords_def)

lemma placeStructure_truthy:
  "truthy (fst (placeStructure cx cy ws reg)) \<or> placeStructure cx cy ws reg = (None, reg)"
  using placeStructure_cases [of cx cy ws reg] by (auto simp: truthy_def)

lemma chunkStructureType_eq:
  "chunkStructureType cx cy ws reg
   = (case fst (placeStructure cx cy ws []) of
        Some t \<Rightarrow> Some t
      | None \<Rightarrow> (case nearbyRecords cx cy reg of [] \<Rightarrow> None | d # _ \<Rightarrow> Some (struct_type d)))"
proof -
  from placeStructure_truthy [of cx cy ws reg] show ?thesis
  proof
    assume t: "truthy (fst (placeStructure cx cy ws reg))"
    obtain st0 reg' where p: "placeStructure cx cy ws reg = (st0, reg')"
      by (cases "placeStructure cx cy ws reg")
    with t obtain s where s: "st0 = Some s" by (auto simp: truthy_def split: option.splits)
    from p t have "chunkStructureType cx cy ws reg = st0"
      by (simp add: chunkStructureType_def checkNearby_fst)
    moreover from p s placeStructure_fst [of cx cy ws reg]
    have "fst (placeStructure cx cy ws []) = Some s" by simp
    ultimately show ?thesis using s by simp
  next
    assume n: "placeStructure cx cy ws reg = (None, reg)"
    with placeStructure_fst [of cx cy ws reg] have "fst (placeStructure cx cy ws []) = None" by simp
    with n show ?thesis
      by (simp add: chunkStructureType_def checkNearby_fst truthy_def)
  qed
qed

subsection \<open>Calls that return\<close>

text \<open>
  The templates of the two structure types the generator rolls are arrays, and a name the
  table does not hold gives no template: on them no step throws.
\<close>

lemma templateSafe_rolled: "t \<in> {''village'', ''dungeon''} \<Longrightarrow> templateSafe t"
  by (auto simp: templateSafe_def STRUCTURE_TEMPLATES_def safeEntry_def)

lemma rotateTemplateValue_safe:
  "safeEntry entry \<Longrightarrow> \<exists>r. rotateTemplateValue entry k = Inr r \<and> safeEntry r"
  by (cases entry) (auto simp: rotateTemplateValue_def safeEntry_def)

lemma scaleTemplateValue_safe:
  "safeEntry entry \<Longrightarrow> \<exists>r. scaleTemplateValue entry k = Inr r \<and> safeEntry r"
  by (cases entry) (auto simp: scaleTemplateValue_def safeEntry_def)

lemma getRandomizedTemplate_safe:
  assumes "templateSafe t"
  shows "getRandomizedTemplate t seed = Inr None
       \<or> (\<exists>td. getRandomizedTemplate t seed = Inr (Some td) \<and> safeEntry (template td))"
proof (cases "STRUCTURE_TEMPLATES t")
  case None
  then show ?thesis by (simp add: getRandomizedTemplate_def)
next
  case (Some entry)
  with assms have s: "safeEntry entry" by (simp add: templateSafe_def)
  obtain rng1 r1 where m1: "mulberry32 (createSeededRandom seed) = (rng1, r1)"
    by (cases "mulberry32 (createSeededRandom seed)")
  obtain rng2 r2 where m2: "mulberry32 rng1 = (rng2, r2)" by (cases "mulberry32 rng1")
  from rotateTemplateValue_safe [OF s, of "\<lfloor>r1 * 4\<rfloor>"]
  obtain r where r: "rotateTemplateValue entry \<lfloor>r1 * 4\<rfloor> = Inr r" "safeEntry r" by blast
  from scaleTemplateValue_safe [OF r(2), of "1 + \<lfloor>r2 * 2\<rfloor>"]
  obtain u where u: "scaleTemplateValue r (1 + \<lfloor>r2 * 2\<rfloor>) = Inr u" "safeEntry u" by blast
  have "getRandomizedTemplate t seed
        = Inr (Some \<lparr>template = u, rotation = \<lfloor>r1 * 4\<rfloor>, scale = 1 + \<lfloor>r2 * 2\<rfloor>\<rparr>)"
    by (simp add: getRandomizedTemplate_def Some m1 m2 r(1) u(1))
  with u(2) show ?thesis by simp
qed

lemma precomputeTemplate_safe:
  assumes "\<And>t. st = Some t \<Longrightarrow> templateSafe t"
  shows "\<exists>rt ts. precomputeTemplate cx cy ws st = Inr (rt, ts)
           \<and> (\<forall>entry. rt = Some entry \<longrightarrow> safeEntry entry)"
proof (cases st)
  case None
  then show ?thesis by (simp add: precomputeTemplate_def)
next
  case (Some t)
  with assms have "templateSafe t" by simp
  from getRandomizedTemplate_safe [OF this, of "ws + cx * 123456 + cy * 789012"]
  show ?thesis by (auto simp: precomputeTemplate_def Some Let_def)
qed

lemma applyTemplateValue_safe:
  "safeEntry entry \<Longrightarrow> \<exists>t'. applyTemplateValue st entry lx ly t = Inr t'"
  by (cases entry) (auto simp: applyTemplateValue_def safeEntry_def Let_def)

lemma applyTemplate_keeps:
  "object (applyTemplate st tmpl lx ly t) = object t"
  "roadType (applyTemplate st tmpl lx ly t) = roadType t"
  by (simp_all add: applyTemplate_def Let_def)

lemma applyTemplateValue_keeps:
  assumes "applyTemplateValue st entry lx ly t = Inr t'"
  shows "object t' = object t" "roadType t' = roadType t"
  using assms
  by (cases entry; auto simp: applyTemplateValue_def applyTemplate_keeps Let_def
        split: if_splits)+

text \<open>
  The body of the tile loop: a new tile with its noise values and its biome, the
  template block, which may throw, and the scatter block.
\<close>

lemma generateTile_form:
  "\<exists>t2 wx wy. object t2 = None \<and> roadType t2 = None
     \<and> generateTile cx cy nf st rt lx ly
         = (case (case (st, rt) of
                    (Some t, Some entry) \<Rightarrow>
                      if truthy st then applyTemplateValue t entry lx ly t2 else Inr t2
                  | _ \<Rightarrow> Inr t2) of
              Inl e \<Rightarrow> Inl e
            | Inr t3 \<Rightarrow>
                Inr (if \<not> truthy (structure t3) \<and> biome t3 \<noteq> ''water'' \<and> roadType t3 = None
                     then t3\<lparr>object := getScatterType t3 wx wy (noise_scatter nf)\<rparr> else t3))"
proof -
  define wx where "wx = cx * int CHUNK_SIZE + int lx"
  define wy where "wy = cy * int CHUNK_SIZE + int ly"
  define warp where "warp = normalizeNoise
     (noise_elevation nf (real_of_int wx * 0.01) (real_of_int wy * 0.01))"
  define elev where "elev = normalizeNoise (noise_elevation nf
     (real_of_int wx * NOISE_SCALE + warp * 8) (real_of_int wy * NOISE_SCALE + warp * 8))"
  define temp where "temp = normalizeNoise (noise_temperature nf
     (real_of_int wx * TEMP_SCALE) (real_of_int wy * TEMP_SCALE))"
  define humi where "humi = normalizeNoise (noise_humidity nf
     (real_of_int wx * HUMIDITY_SCALE) (real_of_int wy * HUMIDITY_SCALE))"
  define t2 where "t2 = (newTile wx wy)\<lparr>elevation := elev, temperature := temp,
     humidity := humi, biome := classifyBiome elev temp humi\<rparr>"
  have t2: "object t2 = None" "roadType t2 = None" by (simp_all add: t2_def newTile_def)
  have "generateTile cx cy nf st rt lx ly
         = (case (case (st, rt) of
                    (Some t, Some entry) \<Rightarrow>
                      if truthy st then applyTemplateValue t entry lx ly t2 else Inr t2
                  | _ \<Rightarrow> Inr t2) of
              Inl e \<Rightarrow> Inl e
            | Inr t3 \<Rightarrow>
                Inr (if \<not> truthy (structure t3) \<and> biome t3 \<noteq> ''water'' \<and> roadType t3 = None
                     then t3\<lparr>object := getScatterType t3 wx wy (noise_scatter nf)\<rparr> else t3))"
    unfolding generateTile_def Let_def t2_def humi_def temp_def elev_def warp_def wx_def wy_def
    by simp
  with t2 show ?thesis by blast
qed

lemma generateTile_safe:
  assumes "\<And>entry. rt = Some entry \<Longrightarrow> safeEntry entry"
  shows "\<exists>t. generateTile cx cy nf st rt lx ly = Inr t"
proof -
  from generateTile_form [of cx cy nf st rt lx ly]
  obtain t2 wx wy where g: "generateTile cx cy nf st rt lx ly
         = (case (case (st, rt) of
                    (Some t, Some entry) \<Rightarrow>
                      if truthy st then applyTemplateValue t entry lx ly t2 else Inr t2
                  | _ \<Rightarrow> Inr t2) of
              Inl e \<Rightarrow> Inl e
            | Inr t3 \<Rightarrow>
                Inr (if \<not> truthy (structure t3) \<and> biome t3 \<noteq> ''water'' \<and> roadType t3 = None
                     then t3\<lparr>object := getScatterType t3 wx wy (noise_scatter nf)\<rparr> else t3))"
    by blast
  have "\<exists>t3. (case (st, rt) of
                (Some t, Some entry) \<Rightarrow>
                  if truthy st then applyTemplateValue t entry lx ly t2 else Inr t2
              | _ \<Rightarrow> Inr t2) = Inr t3"
    using assms applyTemplateValue_safe by (auto split: option.splits)
  then show ?thesis unfolding g by auto
qed

lemma tilesBeforeAutotile_safe:
  assumes "\<And>t. st = Some t \<Longrightarrow> templateSafe t"
  shows "\<exists>raw. tilesBeforeAutotile cx cy ws nf st = Inr raw"
proof -
  from precomputeTemplate_safe [of st cx cy ws] assms
  obtain rt ts where p: "precomputeTemplate cx cy ws st = Inr (rt, ts)"
    and s: "\<And>entry. rt = Some entry \<Longrightarrow> safeEntry entry" by blast
  have "\<exists>col. collect (map (\<lambda>ly. generateTile cx cy nf st rt lx ly) [0..<CHUNK_SIZE]) = Inr col"
    for lx
    by (rule collect_all_Inr) (use generateTile_safe [OF s] in auto)
  then have "\<exists>raw. collect (map (\<lambda>lx. collect (map (\<lambda>ly. generateTile cx cy nf st rt lx ly)
                                            [0..<CHUNK_SIZE])) [0..<CHUNK_SIZE]) = Inr raw"
    by (intro collect_all_Inr) auto
  with p show ?thesis by (simp add: tilesBeforeAutotile_def)
qed

lemma generateChunk_returns_typed:
  assumes "\<And>t. chunkStructureType cx cy ws reg = Some t \<Longrightarrow> templateSafe t"
  shows "\<exists>g. generateChunk cx cy ws nf reg = Inr (g, snd (placeStructure cx cy ws reg))"
proof -
  from tilesBeforeAutotile_safe [of "chunkStructureType cx cy ws reg" cx cy ws nf] assms
  obtain raw where "tilesBeforeAutotile cx cy ws nf (chunkStructureType cx cy ws reg) = Inr raw"
    by blast
  from generateChunk_of_tiles [OF this] show ?thesis by blast
qed

lemma chunkStructureType_safe:
  assumes "\<forall>d \<in> set (nearbyRecords cx cy reg). templateSafe (struct_type d)"
    and "chunkStructureType cx cy ws reg = Some t"
  shows "templateSafe t"
proof (cases "fst (placeStructure cx cy ws [])")
  case None
  with assms(2) obtain d ds where n: "nearbyRecords cx cy reg = d # ds" and t: "t = struct_type d"
    by (auto simp: chunkStructureType_eq split: list.splits)
  from n have "d \<in> set (nearbyRecords cx cy reg)" by simp
  with assms(1) t show ?thesis by blast
next
  case (Some t')
  with assms(2) have "t' = t" by (simp add: chunkStructureType_eq)
  with Some placeStructure_cases [of cx cy ws "[]"] have "t \<in> {''village'', ''dungeon''}" by auto
  then show ?thesis by (rule templateSafe_rolled)
qed

lemma generateChunk_returns:
  assumes "\<forall>d \<in> set (nearbyRecords cx cy reg). templateSafe (struct_type d)"
  shows "\<exists>g. generateChunk cx cy ws nf reg = Inr (g, snd (placeStructure cx cy ws reg))"
  using chunkStructureType_safe [OF assms] by (rule generateChunk_returns_typed)

text \<open>
  A call that throws has not written to the registry: only a chunk that rolls a village
  or a dungeon writes, and it does not throw.
\<close>

lemma generateChunk_throws_unwritten:
  assumes "generateChunk cx cy ws nf reg = Inl e"
  shows "snd (placeStructure cx cy ws reg) = reg"
proof -
  from placeStructure_cases [of cx cy ws reg] show ?thesis
  proof
    assume "placeStructure cx cy ws reg = (None, reg)"
    then show ?thesis by simp
  next
    assume "\<exists>t. t \<in> {''village'', ''dungeon''}
          \<and> candidateChunk ws (gridCell (cx, cy)) = (cx, cy)
          \<and> placeStructure cx cy ws reg
              = (Some t, AList.update (cx, cy) \<lparr>struct_type = t, struct_cx = cx, struct_cy = cy\<rparr> reg)"
    then obtain t where t: "t \<in> {''village'', ''dungeon''}"
      and p: "fst (placeStructure cx cy ws reg) = Some t" by auto
    from p placeStructure_fst [of cx cy ws reg]
    have c: "chunkStructureType cx cy ws reg = Some t" by (simp add: chunkStructureType_eq)
    have "\<exists>g. generateChunk cx cy ws nf reg = Inr (g, snd (placeStructure cx cy ws reg))"
    proof (rule generateChunk_returns_typed)
      fix u
      assume "chunkStructureType cx cy ws reg = Some u"
      with c templateSafe_rolled [OF t] show "templateSafe u" by simp
    qed
    with assms show ?thesis by simp
  qed
qed

subsection \<open>Calls that throw\<close>

text \<open>
  Under a structure type that names a function with parameters, \<open>rotateTemplate\<close> throws,
  or else \<open>scaleTemplate\<close> does, or else the tile loop does at the tile \<open>(15, 15)\<close>.
\<close>

lemma collect_Inl:
  assumes "Inl e \<in> set rs"
  shows "collect rs = Inl TypeError"
  using assms
proof (induction rs)
  case Nil
  then show ?case by simp
next
  case (Cons r rs)
  show ?case
  proof (cases r)
    case (Inl a)
    then show ?thesis by (cases a) simp
  next
    case (Inr v)
    with Cons.prems have "Inl e \<in> set rs" by auto
    from Cons.IH [OF this] Inr show ?thesis by simp
  qed
qed

lemma unsafe_entry:
  assumes "\<not> templateSafe t"
  shows "t \<noteq> [] \<and> (\<exists>n. STRUCTURE_TEMPLATES t = Some (ProtoFunction n) \<and> (n = 1 \<or> n = 2))"
proof -
  from assms obtain n where n: "STRUCTURE_TEMPLATES t = Some (ProtoFunction n)" "n \<noteq> 0"
    by (auto simp: templateSafe_def safeEntry_def split: option.splits tableEntry.splits)
  then have "n = 1 \<or> n = 2"
    by (auto simp: STRUCTURE_TEMPLATES_def objectPrototype_def split: if_splits)
  moreover from n have "t \<noteq> []"
    by (auto simp: STRUCTURE_TEMPLATES_def objectPrototype_def)
  ultimately show ?thesis using n by blast
qed

lemma unsafe_tile:
  assumes "n = 1 \<or> n = 2" "t \<noteq> []"
  shows "generateTile cx cy nf (Some t) (Some (ProtoFunction n)) 15 15 = Inl TypeError"
  using assms
  by (auto simp: generateTile_def Let_def truthy_def applyTemplateValue_def CHUNK_SIZE_def)

lemma tilesBeforeAutotile_unsafe:
  assumes "\<not> templateSafe t"
  shows "tilesBeforeAutotile cx cy ws nf (Some t) = Inl TypeError"
proof -
  from unsafe_entry [OF assms] obtain n where t: "t \<noteq> []"
    and s: "STRUCTURE_TEMPLATES t = Some (ProtoFunction n)" and n: "n = 1 \<or> n = 2" by blast
  show ?thesis
  proof (cases "precomputeTemplate cx cy ws (Some t)")
    case (Inl e)
    then show ?thesis by (cases e) (simp add: tilesBeforeAutotile_def)
  next
    case (Inr p)
    obtain rt ts where p: "p = (rt, ts)" by (cases p)
    obtain rng1 r1 where m1: "mulberry32 (createSeededRandom (ws + cx * 123456 + cy * 789012)) = (rng1, r1)"
      by (cases "mulberry32 (createSeededRandom (ws + cx * 123456 + cy * 789012))")
    obtain rng2 r2 where m2: "mulberry32 rng1 = (rng2, r2)" by (cases "mulberry32 rng1")
    from mulberry32_range(1) [of rng1] m2 have "0 \<le> r2" by simp
    define sc where "sc = 1 + \<lfloor>r2 * 2\<rfloor>"
    from \<open>0 \<le> r2\<close> have "1 \<le> sc" by (simp add: sc_def)
    with Inr p n have rt: "rt = Some (ProtoFunction n)"
      by (auto simp: precomputeTemplate_def truthy_def t getRandomizedTemplate_def s m1 m2
          rotateTemplateValue_def scaleTemplateValue_def Let_def sc_def [symmetric]
          split: if_splits)
    let ?col = "\<lambda>lx. collect (map (\<lambda>ly. generateTile cx cy nf (Some t) rt lx ly) [0..<CHUNK_SIZE])"
    have "Inl TypeError \<in> set (map (\<lambda>ly. generateTile cx cy nf (Some t) rt 15 ly) [0..<CHUNK_SIZE])"
      using unsafe_tile [OF n t, of cx cy nf] by (auto simp: rt CHUNK_SIZE_def image_iff intro!: bexI [of _ 15])
    then have "?col 15 = Inl TypeError" by (rule collect_Inl)
    then have "Inl TypeError \<in> set (map ?col [0..<CHUNK_SIZE])"
      by (auto simp: CHUNK_SIZE_def image_iff intro!: bexI [of _ 15])
    then have "collect (map ?col [0..<CHUNK_SIZE]) = Inl TypeError" by (rule collect_Inl)
    with Inr p show ?thesis by (simp add: tilesBeforeAutotile_def)
  qed
qed

lemma generateChunk_throws:
  assumes "chunkStructureType cx cy ws reg = Some t" "\<not> templateSafe t"
  shows "generateChunk cx cy ws nf reg = Inl TypeError"
  by (simp add: generateChunk_unfold assms(1) tilesBeforeAutotile_unsafe [OF assms(2)])

text \<open>
  So \<open>generateChunk\<close> returns exactly when the structure type of the chunk, if it has one,
  names no function with parameters.
\<close>

lemma generateChunk_returns_iff:
  "(\<exists>grid reg'. generateChunk cx cy ws nf reg = Inr (grid, reg'))
   \<longleftrightarrow> (case chunkStructureType cx cy ws reg of None \<Rightarrow> True | Some t \<Rightarrow> templateSafe t)"
proof (cases "chunkStructureType cx cy ws reg")
  case None
  then have "\<And>t. chunkStructureType cx cy ws reg = Some t \<Longrightarrow> templateSafe t" by simp
  from generateChunk_returns_typed [of cx cy ws reg nf] this None show ?thesis by auto
next
  case (Some t)
  show ?thesis
  proof (cases "templateSafe t")
    case True
    with Some have "\<And>u. chunkStructureType cx cy ws reg = Some u \<Longrightarrow> templateSafe u" by simp
    from generateChunk_returns_typed [of cx cy ws reg nf] this Some True show ?thesis by auto
  next
    case False
    from generateChunk_throws [OF Some False, of nf] Some False show ?thesis by simp
  qed
qed

text \<open>Runs on the world seed of \<^verbatim>\<open>config.js\<close>.\<close>

lemmas rng_eval = createSeededRandom_def mulberry32_def imul_def Let_def

lemma place_0_0: "placeStructure 0 0 12345 [] = (None, [])"
  by (simp add: placeStructure_def rng_eval STRUCTURE_SPACING_def)

lemma place_3_123: "placeStructure 3 123 12345 []
   = (Some ''village'', [((3, 123), \<lparr>struct_type = ''village'', struct_cx = 3, struct_cy = 123\<rparr>)])"
  by (simp add: placeStructure_def rng_eval STRUCTURE_SPACING_def getStructureKey_def
      STRUCTURE_SPAWN_CHANCE_VILLAGE_def STRUCTURE_SPAWN_CHANCE_DUNGEON_def)

lemma st_0_0: "chunkStructureType 0 0 12345 [] = None"
  by (simp add: chunkStructureType_eq place_0_0 nearbyRecords_def)

lemma st_3_123: "chunkStructureType 3 123 12345 [] = Some ''village''"
  by (simp add: chunkStructureType_eq place_3_123)

lemma tmpl_3_123: "precomputeTemplate 3 123 12345 (Some ''village'')
    = Inr (Some (Template [''.....'', ''.VVV.'', ''.VVV.'', ''.VVV.'', ''.....'']), 1)"
  by (simp add: precomputeTemplate_def truthy_def getRandomizedTemplate_def
      STRUCTURE_TEMPLATES_def rng_eval rotateTemplateValue_def scaleTemplateValue_def
      rotateTemplate_def js_rem_def rotateOnce_def charAt_def scaleTemplate_def)

text \<open>
  A call that throws. The registry holds, one chunk to the east of \<open>(0, 0)\<close>, a record
  of type "constructor", a name of \<^verbatim>\<open>Object.prototype\<close>: chunk \<open>(0, 0)\<close> rolls no structure
  and adopts the type, the lookup finds the function \<^verbatim>\<open>Object\<close>, the rotation drawn is 3,
  and \<open>rotateTemplate\<close> reads \<^verbatim>\<open>Object[0][0]\<close>.
\<close>

lemma st_constructor:
  "chunkStructureType 0 0 12345
     [((1, 0), \<lparr>struct_type = ''constructor'', struct_cx = 1, struct_cy = 0\<rparr>)]
   = Some ''constructor''"
  by (simp add: chunkStructureType_eq place_0_0 nearbyRecords_def nearChunk_def)

lemma tmpl_constructor: "precomputeTemplate 0 0 12345 (Some ''constructor'') = Inl TypeError"
  by (simp add: precomputeTemplate_def truthy_def getRandomizedTemplate_def
      STRUCTURE_TEMPLATES_def objectPrototype_def rng_eval rotateTemplateValue_def js_rem_def)

lemma generateChunk_constructor_throws:
  "generateChunk 0 0 12345 nf
     [((1, 0), \<lparr>struct_type = ''constructor'', struct_cx = 1, struct_cy = 0\<rparr>)]
   = Inl TypeError"
  by (simp add: generateChunk_unfold st_constructor tilesBeforeAutotile_def tmpl_constructor)

lemma unsafe_constructor: "\<not> templateSafe ''constructor''"
  by (simp add: templateSafe_def STRUCTURE_TEMPLATES_def objectPrototype_def safeEntry_def)

text \<open>
  Claim C1. \<open>generateChunk\<close> reads nothing but its arguments, so equal arguments give
  equal results: the same grid, field for field, or the same exception. Beyond that:
  when a call returns, a second call on the registry as the first call left it returns
  the identical grid and leaves the registry as it is; a call on any registry that holds
  the same records, in the same order, within one chunk of \<open>(cx, cy)\<close> has the same
  result, grid or exception; and the call returns whenever no record within one chunk of
  \<open>(cx, cy)\<close> has a type that names a function with parameters of \<^verbatim>\<open>Object.prototype\<close>, as
  is the case of every record that \<open>generateChunk\<close> writes.
\<close>

theorem generateChunk_deterministic:
  "(generateChunk cx cy worldSeed nf reg = Inr (grid, reg')
      \<longrightarrow> generateChunk cx cy worldSeed nf reg' = Inr (grid, reg'))
 \<and> (nearbyRecords cx cy reg2 = nearbyRecords cx cy reg
      \<longrightarrow> outcome (generateChunk cx cy worldSeed nf reg2)
          = outcome (generateChunk cx cy worldSeed nf reg))
 \<and> ((\<forall>d \<in> set (nearbyRecords cx cy reg). templateSafe (struct_type d))
      \<longrightarrow> (\<exists>grid reg'. generateChunk cx cy worldSeed nf reg = Inr (grid, reg')))"
proof (intro conjI impI)
  assume g: "generateChunk cx cy worldSeed nf reg = Inr (grid, reg')"
  from generateChunk_Inr(1) [OF g] have r: "reg' = snd (placeStructure cx cy worldSeed reg)" .
  have p: "placeStructure cx cy worldSeed reg' = placeStructure cx cy worldSeed reg"
    by (simp add: r placeStructure_again)
  then have c: "chunkStructureType cx cy worldSeed reg' = chunkStructureType cx cy worldSeed reg"
    by (simp add: chunkStructureType_def)
  have "generateChunk cx cy worldSeed nf reg' = generateChunk cx cy worldSeed nf reg"
    unfolding generateChunk_unfold c p ..
  with g show "generateChunk cx cy worldSeed nf reg' = Inr (grid, reg')" by simp
next
  assume n: "nearbyRecords cx cy reg2 = nearbyRecords cx cy reg"
  have "chunkStructureType cx cy worldSeed reg2 = chunkStructureType cx cy worldSeed reg"
    unfolding chunkStructureType_eq n ..
  then show "outcome (generateChunk cx cy worldSeed nf reg2)
             = outcome (generateChunk cx cy worldSeed nf reg)"
    by (simp add: generateChunk_unfold outcome_def split: sum.splits)
next
  assume "\<forall>d \<in> set (nearbyRecords cx cy reg). templateSafe (struct_type d)"
  from generateChunk_returns [OF this, of worldSeed nf]
  show "\<exists>grid reg'. generateChunk cx cy worldSeed nf reg = Inr (grid, reg')" by blast
qed

theorem generateChunk_deterministic_witness:
  "nearbyRecords 0 0 [((10, 10), \<lparr>struct_type = ''dungeon'', struct_cx = 10, struct_cy = 10\<rparr>),
                      ((1, 0), \<lparr>struct_type = ''village'', struct_cx = 1, struct_cy = 0\<rparr>)]
   = nearbyRecords 0 0 [((1, 0), \<lparr>struct_type = ''village'', struct_cx = 1, struct_cy = 0\<rparr>)]
 \<and> map (\<lambda>d. templateSafe (struct_type d))
     (nearbyRecords 0 0 [((1, 0), \<lparr>struct_type = ''village'', struct_cx = 1, struct_cy = 0\<rparr>)])
   = [True]
 \<and> (\<exists>grid r r2.
       generateChunk 0 0 12345 (constantNoise 0)
         [((1, 0), \<lparr>struct_type = ''village'', struct_cx = 1, struct_cy = 0\<rparr>)] = Inr (grid, r)
     \<and> generateChunk 0 0 12345 (constantNoise 0) r = Inr (grid, r)
     \<and> generateChunk 0 0 12345 (constantNoise 0)
         [((10, 10), \<lparr>struct_type = ''dungeon'', struct_cx = 10, struct_cy = 10\<rparr>),
          ((1, 0), \<lparr>struct_type = ''village'', struct_cx = 1, struct_cy = 0\<rparr>)] = Inr (grid, r2))"
proof -
  let ?reg = "[((1, 0), \<lparr>struct_type = ''village'', struct_cx = 1, struct_cy = 0\<rparr>)]"
  let ?reg2 = "((10, 10), \<lparr>struct_type = ''dungeon'', struct_cx = 10, struct_cy = 10\<rparr>) # ?reg"
  have h: "nearbyRecords 0 0 ?reg2 = nearbyRecords 0 0 ?reg"
    by (simp add: nearbyRecords_def nearChunk_def)
  have v: "templateSafe ''village''" by (rule templateSafe_rolled) simp
  then have s: "map (\<lambda>d. templateSafe (struct_type d)) (nearbyRecords 0 0 ?reg) = [True]"
    by (simp add: nearbyRecords_def nearChunk_def)
  then have s': "\<forall>d \<in> set (nearbyRecords 0 0 ?reg). templateSafe (struct_type d)"
    using v by (simp add: nearbyRecords_def nearChunk_def)
  note d = generateChunk_deterministic [of 0 0 12345 "constantNoise 0" ?reg _ _ ?reg2]
  from d [THEN conjunct2, THEN conjunct2] s'
  obtain g r where g: "generateChunk 0 0 12345 (constantNoise 0) ?reg = Inr (g, r)" by blast
  from generateChunk_deterministic [of 0 0 12345 "constantNoise 0" ?reg g r ?reg2] g
  have a: "generateChunk 0 0 12345 (constantNoise 0) r = Inr (g, r)" by blast
  from d [THEN conjunct2, THEN conjunct1] h g
  have "outcome (generateChunk 0 0 12345 (constantNoise 0) ?reg2) = Inr g"
    by (simp add: outcome_def)
  then obtain r2 where o: "generateChunk 0 0 12345 (constantNoise 0) ?reg2 = Inr (g, r2)"
    by (auto simp: outcome_def split: sum.splits)
  from g a o have "\<exists>grid r r2.
       generateChunk 0 0 12345 (constantNoise 0) ?reg = Inr (grid, r)
     \<and> generateChunk 0 0 12345 (constantNoise 0) r = Inr (grid, r)
     \<and> generateChunk 0 0 12345 (constantNoise 0) ?reg2 = Inr (grid, r2)" by blast
  with h s show ?thesis by blast
qed

subsection \<open>Scatter\<close>

lemma getScatterType_blocked:
  "structure t \<noteq> None \<or> biome t = ''water'' \<Longrightarrow> getScatterType t wx wy sn = None"
  by (simp add: getScatterType_def)

lemma generateTile_exclusive:
  assumes "generateTile cx cy nf st rt lx ly = Inr tile"
  shows "roadType tile = None
       \<and> (structure tile \<noteq> None \<or> biome tile = ''water'' \<longrightarrow> object tile = None)"
proof -
  from generateTile_form [of cx cy nf st rt lx ly]
  obtain t2 wx wy where t2: "object t2 = None" "roadType t2 = None"
    and g: "generateTile cx cy nf st rt lx ly
         = (case (case (st, rt) of
                    (Some t, Some entry) \<Rightarrow>
                      if truthy st then applyTemplateValue t entry lx ly t2 else Inr t2
                  | _ \<Rightarrow> Inr t2) of
              Inl e \<Rightarrow> Inl e
            | Inr t3 \<Rightarrow>
                Inr (if \<not> truthy (structure t3) \<and> biome t3 \<noteq> ''water'' \<and> roadType t3 = None
                     then t3\<lparr>object := getScatterType t3 wx wy (noise_scatter nf)\<rparr> else t3))"
    by blast
  from assms [unfolded g] obtain t3
    where a: "(case (st, rt) of
                (Some t, Some entry) \<Rightarrow>
                  if truthy st then applyTemplateValue t entry lx ly t2 else Inr t2
              | _ \<Rightarrow> Inr t2) = Inr t3"
      and t: "tile = (if \<not> truthy (structure t3) \<and> biome t3 \<noteq> ''water'' \<and> roadType t3 = None
                     then t3\<lparr>object := getScatterType t3 wx wy (noise_scatter nf)\<rparr> else t3)"
    by (auto split: sum.splits)
  from a t2 have t3: "object t3 = None" "roadType t3 = None"
    by (auto split: option.splits if_splits dest: applyTemplateValue_keeps)
  show ?thesis unfolding t using t3 by (auto simp: getScatterType_blocked)
qed

lemma beforeAutotile_fields:
  "structure (beforeAutotile t) = structure t" "roadType (beforeAutotile t) = roadType t"
  "biome (beforeAutotile t) = biome t" "object (beforeAutotile t) = object t"
  by (simp_all add: beforeAutotile_def)

lemma sameTerrain_nth:
  assumes "map (map f) g' = map (map f) g" "x < length g" "y < length (g ! x)"
  shows "f (g' ! x ! y) = f (g ! x ! y)"
proof -
  from assms(1) have l: "length g' = length g" by (metis length_map)
  from assms(1) have "map (map f) g' ! x = map (map f) g ! x" by simp
  with assms(2) l have r: "map f (g' ! x) = map f (g ! x)" by simp
  then have "length (g' ! x) = length (g ! x)" by (metis length_map)
  with r assms(3) show ?thesis by (metis nth_map)
qed

text \<open>The terrain fields of a generated tile are those the tile loop gave it.\<close>

lemma generateChunk_tile:
  assumes "generateChunk cx cy ws nf reg = Inr (g, reg')" "x < CHUNK_SIZE" "y < CHUNK_SIZE"
  shows "\<exists>rt ts tile.
           precomputeTemplate cx cy ws (chunkStructureType cx cy ws reg) = Inr (rt, ts)
         \<and> generateTile cx cy nf (chunkStructureType cx cy ws reg) rt x y = Inr tile
         \<and> beforeAutotile (g ! x ! y) = beforeAutotile tile"
proof -
  from generateChunk_Inr(2) [OF assms(1)] obtain raw
    where r: "tilesBeforeAutotile cx cy ws nf (chunkStructureType cx cy ws reg) = Inr raw"
      and s: "map (map beforeAutotile) g = map (map beforeAutotile) raw" by blast
  from tilesBeforeAutotile_Inr [OF r] obtain rt ts
    where p: "precomputeTemplate cx cy ws (chunkStructureType cx cy ws reg) = Inr (rt, ts)"
      and l: "map length raw = replicate CHUNK_SIZE CHUNK_SIZE"
      and t: "\<forall>x < CHUNK_SIZE. \<forall>y < CHUNK_SIZE.
                generateTile cx cy nf (chunkStructureType cx cy ws reg) rt x y
                = Inr (raw ! x ! y)" by blast
  have "length (map length raw) = length (replicate CHUNK_SIZE CHUNK_SIZE)"
    by (simp only: l)
  then have n: "length raw = CHUNK_SIZE" by simp
  with assms(2) have x: "x < length raw" by simp
  have "map length raw ! x = replicate CHUNK_SIZE CHUNK_SIZE ! x" by (simp only: l)
  with x assms(2) have "length (raw ! x) = CHUNK_SIZE" by simp
  with assms(3) have y: "y < length (raw ! x)" by simp
  from sameTerrain_nth [OF s x y]
  have "beforeAutotile (g ! x ! y) = beforeAutotile (raw ! x ! y)" .
  moreover from t assms(2,3)
  have "generateTile cx cy nf (chunkStructureType cx cy ws reg) rt x y = Inr (raw ! x ! y)"
    by blast
  ultimately show ?thesis using p by blast
qed

lemma generateChunk_shape:
  assumes "generateChunk cx cy ws nf reg = Inr (g, reg')"
  shows "map length g = replicate CHUNK_SIZE CHUNK_SIZE"
proof -
  from generateChunk_Inr(2) [OF assms] obtain raw
    where r: "tilesBeforeAutotile cx cy ws nf (chunkStructureType cx cy ws reg) = Inr raw"
      and s: "map (map beforeAutotile) g = map (map beforeAutotile) raw" by blast
  from s have "map length g = map length raw" by (rule sameTerrain_lengths)
  also from tilesBeforeAutotile_Inr [OF r] have "\<dots> = replicate CHUNK_SIZE CHUNK_SIZE" by blast
  finally show ?thesis .
qed

text \<open>
  Claim C5. Every grid that \<open>generateChunk\<close> returns has \<open>CHUNK_SIZE\<close> columns of
  \<open>CHUNK_SIZE\<close> tiles, and on it no tile that carries a structure, or a road tag, or whose
  biome is water, has a scatter object. A grid is returned whenever no record within one
  chunk of \<open>(cx, cy)\<close> has a type that names a function with parameters of
  \<^verbatim>\<open>Object.prototype\<close>, as is the case of every record that \<open>generateChunk\<close> writes.
\<close>

theorem scatter_exclusive:
  "(generateChunk cx cy worldSeed nf reg = Inr (grid, reg')
      \<longrightarrow> map length grid = replicate CHUNK_SIZE CHUNK_SIZE
          \<and> (\<forall>x < CHUNK_SIZE. \<forall>y < CHUNK_SIZE.
                structure (grid ! x ! y) \<noteq> None \<or> roadType (grid ! x ! y) \<noteq> None
                  \<or> biome (grid ! x ! y) = ''water''
                \<longrightarrow> object (grid ! x ! y) = None))
 \<and> ((\<forall>d \<in> set (nearbyRecords cx cy reg). templateSafe (struct_type d))
      \<longrightarrow> (\<exists>grid reg'. generateChunk cx cy worldSeed nf reg = Inr (grid, reg')))"
proof (intro conjI impI allI)
  assume g: "generateChunk cx cy worldSeed nf reg = Inr (grid, reg')"
  from generateChunk_shape [OF g] show "map length grid = replicate CHUNK_SIZE CHUNK_SIZE" .
  fix x y
  assume x: "x < CHUNK_SIZE" and y: "y < CHUNK_SIZE"
    and b: "structure (grid ! x ! y) \<noteq> None \<or> roadType (grid ! x ! y) \<noteq> None
              \<or> biome (grid ! x ! y) = ''water''"
  from generateChunk_tile [OF g x y] obtain rt ts tile
    where t: "generateTile cx cy nf (chunkStructureType cx cy worldSeed reg) rt x y = Inr tile"
      and e: "beforeAutotile (grid ! x ! y) = beforeAutotile tile" by blast
  have f: "structure (grid ! x ! y) = structure tile" "roadType (grid ! x ! y) = roadType tile"
    "biome (grid ! x ! y) = biome tile" "object (grid ! x ! y) = object tile"
    using beforeAutotile_fields [of "grid ! x ! y"] beforeAutotile_fields [of tile] e
    by simp_all
  from generateTile_exclusive [OF t]
  have r: "roadType tile = None"
    and i: "structure tile \<noteq> None \<or> biome tile = ''water'' \<longrightarrow> object tile = None"
    by simp_all
  from b have "structure tile \<noteq> None \<or> roadType tile \<noteq> None \<or> biome tile = ''water''"
    by (simp only: f)
  with r i have "object tile = None" by auto
  then show "object (grid ! x ! y) = None" by (simp only: f)
next
  assume "\<forall>d \<in> set (nearbyRecords cx cy reg). templateSafe (struct_type d)"
  from generateChunk_returns [OF this, of worldSeed nf]
  show "\<exists>grid reg'. generateChunk cx cy worldSeed nf reg = Inr (grid, reg')" by blast
qed

lemma water_tile:
  "generateTile 0 0 (constantNoise (- 1)) None rt 0 0 = Inr tile \<Longrightarrow> biome tile = ''water''"
  by (auto simp: generateTile_def Let_def constantNoise_def normalizeNoise_def classifyBiome_def
      WATER_THRESHOLD_def newTile_def truthy_def)

lemma village_tile:
  "generateTile 3 123 (constantNoise 0) (Some ''village'')
       (Some (Template [''.....'', ''.VVV.'', ''.VVV.'', ''.VVV.'', ''.....''])) 16 16 = Inr tile
   \<Longrightarrow> structure tile = Some ''village''"
  by (auto simp: generateTile_def Let_def constantNoise_def normalizeNoise_def classifyBiome_def
      WATER_THRESHOLD_def SAND_THRESHOLD_def MOUNTAIN_THRESHOLD_def DESERT_TEMP_def SNOW_TEMP_def
      FOREST_HUMIDITY_def newTile_def truthy_def applyTemplateValue_def applyTemplate_def
      CHUNK_SIZE_def canPlaceStructure_def)

theorem scatter_exclusive_witness:
  "nearbyRecords 0 0 [] = [] \<and> nearbyRecords 3 123 [] = []
 \<and> (\<exists>grid reg'. generateChunk 0 0 12345 (constantNoise (- 1)) [] = Inr (grid, reg')
       \<and> biome (grid ! 0 ! 0) = ''water'' \<and> object (grid ! 0 ! 0) = None)
 \<and> (\<exists>grid reg'. generateChunk 3 123 12345 (constantNoise 0) [] = Inr (grid, reg')
       \<and> structure (grid ! 16 ! 16) = Some ''village'' \<and> object (grid ! 16 ! 16) = None)"
proof -
  have n: "nearbyRecords 0 0 [] = []" "nearbyRecords 3 123 [] = []"
    by (simp_all add: nearbyRecords_def)
  have z: "0 < CHUNK_SIZE" "16 < CHUNK_SIZE" by (simp_all add: CHUNK_SIZE_def)
  from scatter_exclusive [of 0 0 12345 "constantNoise (- 1)" "[]", THEN conjunct2] n(1)
  obtain g1 r1 where g1: "generateChunk 0 0 12345 (constantNoise (- 1)) [] = Inr (g1, r1)"
    by auto
  from scatter_exclusive [of 0 0 12345 "constantNoise (- 1)" "[]" g1 r1, THEN conjunct1] g1
  have e1: "\<forall>x < CHUNK_SIZE. \<forall>y < CHUNK_SIZE.
          structure (g1 ! x ! y) \<noteq> None \<or> roadType (g1 ! x ! y) \<noteq> None
            \<or> biome (g1 ! x ! y) = ''water'' \<longrightarrow> object (g1 ! x ! y) = None" by blast
  from generateChunk_tile [OF g1 z(1) z(1)] obtain rt1 ts1 t1
    where "generateTile 0 0 (constantNoise (- 1)) None rt1 0 0 = Inr t1"
      and "beforeAutotile (g1 ! 0 ! 0) = beforeAutotile t1" by (auto simp: st_0_0)
  with water_tile [of rt1 t1] beforeAutotile_fields(3) [of "g1 ! 0 ! 0"]
    beforeAutotile_fields(3) [of t1]
  have w: "biome (g1 ! 0 ! 0) = ''water''" by simp
  with e1 z(1) have o1: "object (g1 ! 0 ! 0) = None" by blast
  from scatter_exclusive [of 3 123 12345 "constantNoise 0" "[]", THEN conjunct2] n(2)
  obtain g2 r2 where g2: "generateChunk 3 123 12345 (constantNoise 0) [] = Inr (g2, r2)"
    by auto
  from scatter_exclusive [of 3 123 12345 "constantNoise 0" "[]" g2 r2, THEN conjunct1] g2
  have e2: "\<forall>x < CHUNK_SIZE. \<forall>y < CHUNK_SIZE.
          structure (g2 ! x ! y) \<noteq> None \<or> roadType (g2 ! x ! y) \<noteq> None
            \<or> biome (g2 ! x ! y) = ''water'' \<longrightarrow> object (g2 ! x ! y) = None" by blast
  from generateChunk_tile [OF g2 z(2) z(2)] obtain t2
    where "generateTile 3 123 (constantNoise 0) (Some ''village'')
       (Some (Template [''.....'', ''.VVV.'', ''.VVV.'', ''.VVV.'', ''.....''])) 16 16 = Inr t2"
      and "beforeAutotile (g2 ! 16 ! 16) = beforeAutotile t2"
    by (auto simp: st_3_123 tmpl_3_123)
  with village_tile [of t2] beforeAutotile_fields(1) [of "g2 ! 16 ! 16"]
    beforeAutotile_fields(1) [of t2]
  have v: "structure (g2 ! 16 ! 16) = Some ''village''" by simp
  with e2 z(2) have o2: "object (g2 ! 16 ! 16) = None" by blast
  from g1 w o1 g2 v o2 n show ?thesis by blast
qed

subsection \<open>The structure registry\<close>














section \<open>Properties of the chunk cache\<close>

text \<open>
  \<open>unloadDistantChunks\<close> keeps exactly the chunks within the keep distance, in their
  order, and does not touch the registry.
\<close>

lemma unloadDistantChunks_registry:
  "registry (unloadDistantChunks centerCX centerCY keepDistance cache) = registry cache"
  by (simp add: unloadDistantChunks_def Let_def)

lemma fold_delete_filter:
  "fold AList.delete ks al = filter (\<lambda>p. fst p \<notin> set ks) al"
proof (induction ks arbitrary: al)
  case Nil
  show ?case by simp
next
  case (Cons k ks)
  have "AList.delete k al = filter (\<lambda>p. fst p \<noteq> k) al"
    by (induction al) auto
  with Cons.IH [of "AList.delete k al"] show ?case by (auto intro: filter_cong)
qed

lemma unloadDistantChunks_chunks:
  "chunks (unloadDistantChunks centerCX centerCY keepDistance cache)
   = filter (\<lambda>(key, chunk). \<bar>fst key - centerCX\<bar> \<le> keepDistance
                              \<and> \<bar>snd key - centerCY\<bar> \<le> keepDistance) (chunks cache)"
  by (auto simp: unloadDistantChunks_def Let_def fold_delete_filter case_prod_unfold
      intro!: filter_cong)

lemma getChunk_fresh:
  assumes "generateChunk cx cy ws nf [] = Inr (g, r)"
  shows "getChunk cx cy ws nf newChunkCache = Inr (g, \<lparr>chunks = [((cx, cy), g)], registry = r\<rparr>)"
  using assms by (simp add: getChunk_def newChunkCache_def getChunkKey_def)

lemma getChunk_3_123:
  "\<exists>grid. getChunk 3 123 12345 nf newChunkCache
     = Inr (grid, \<lparr>chunks = [((3, 123), grid)],
                   registry = [((3, 123), \<lparr>struct_type = ''village'', struct_cx = 3, struct_cy = 123\<rparr>)]\<rparr>)"
proof -
  have "\<forall>d \<in> set (nearbyRecords 3 123 []). templateSafe (struct_type d)"
    by (simp add: nearbyRecords_def)
  from generateChunk_returns [OF this, of 12345 nf]
  obtain g where "generateChunk 3 123 12345 nf [] = Inr (g, snd (placeStructure 3 123 12345 []))"
    ..
  from getChunk_fresh [OF this]
  have "getChunk 3 123 12345 nf newChunkCache
     = Inr (g, \<lparr>chunks = [((3, 123), g)],
                registry = [((3, 123), \<lparr>struct_type = ''village'', struct_cx = 3, struct_cy = 123\<rparr>)]\<rparr>)"
    by (simp only: place_3_123 snd_conv)
  then show ?thesis by (rule exI [of _ g])
qed

text \<open>
  Claim C4 on a cache that holds one chunk, the origin of a village. The chunk lies
  beyond the keep distance of the centre \<open>(0, 0)\<close>: \<open>unloadDistantChunks\<close> removes it
  from \<open>chunks\<close> and leaves its entry in the registry, where \<open>unloadChunk\<close> removes
  both.
\<close>

theorem unloadDistantChunks_leaves_registry:
  "\<exists>grid cache. getChunk 3 123 12345 (constantNoise 0) newChunkCache = Inr (grid, cache)
     \<and> chunks cache = [((3, 123), grid)]
     \<and> registry cache = [((3, 123), \<lparr>struct_type = ''village'', struct_cx = 3, struct_cy = 123\<rparr>)]
     \<and> chunks (unloadDistantChunks 0 0 3 cache) = []
     \<and> registry (unloadDistantChunks 0 0 3 cache)
         = [((3, 123), \<lparr>struct_type = ''village'', struct_cx = 3, struct_cy = 123\<rparr>)]
     \<and> chunks (unloadChunk 3 123 cache) = []
     \<and> registry (unloadChunk 3 123 cache) = []"
proof -
  from getChunk_3_123 [of "constantNoise 0"]
  obtain g where g: "getChunk 3 123 12345 (constantNoise 0) newChunkCache
     = Inr (g, \<lparr>chunks = [((3, 123), g)],
                registry = [((3, 123), \<lparr>struct_type = ''village'', struct_cx = 3, struct_cy = 123\<rparr>)]\<rparr>)"
    ..
  define c where "c = \<lparr>chunks = [((3 :: int, 123 :: int), g)],
      registry = [((3, 123), \<lparr>struct_type = ''village'', struct_cx = 3, struct_cy = 123\<rparr>)]\<rparr>"
  have 1: "getChunk 3 123 12345 (constantNoise 0) newChunkCache = Inr (g, c)"
    using g by (simp only: c_def)
  have 2: "chunks c = [((3, 123), g)]" by (simp add: c_def)
  have 3: "registry c = [((3, 123), \<lparr>struct_type = ''village'', struct_cx = 3, struct_cy = 123\<rparr>)]"
    by (simp add: c_def)
  have 4: "chunks (unloadDistantChunks 0 0 3 c) = []"
    by (simp add: unloadDistantChunks_def Let_def c_def)
  have 5: "registry (unloadDistantChunks 0 0 3 c)
         = [((3, 123), \<lparr>struct_type = ''village'', struct_cx = 3, struct_cy = 123\<rparr>)]"
    by (simp only: unloadDistantChunks_registry 3)
  have 6: "chunks (unloadChunk 3 123 c) = []" "registry (unloadChunk 3 123 c) = []"
    by (simp_all add: unloadChunk_def getChunkKey_def c_def)
  show ?thesis
    by (rule exI [of _ g], rule exI [of _ c], intro conjI) (rule 1 2 3 4 5 6)+
qed

section \<open>Properties of the road graph\<close>

lemma parent_in_range:
  assumes "0 \<le> r" "r < 1"
  shows "nat \<lfloor>r * real (Suc n)\<rfloor> < Suc n"
proof -
  from assms have "r * real (Suc n) < real (Suc n)" by simp
  then have "\<lfloor>r * real (Suc n)\<rfloor> < int (Suc n)" by (simp add: floor_less_iff)
  then show ?thesis by simp
qed

text \<open>
  The loop body allocates identities in order, and on identities it is \<open>addNodeRefs\<close>.
\<close>

lemma addNode_refs:
  assumes "\<forall>i < length ns. node_ref (ns ! i) = i"
    and "addNode cX cY (rng, ns, es) = (rng', ns', es')"
  shows "(\<forall>i < length ns'. node_ref (ns' ! i) = i)
       \<and> addNodeRefs (rng, length ns, map (\<lambda>e. (node_ref (edge_from e), node_ref (edge_to e))) es)
           = (rng', length ns', map (\<lambda>e. (node_ref (edge_from e), node_ref (edge_to e))) es')"
proof -
  obtain rng1 r1 where m1: "mulberry32 rng = (rng1, r1)" by (cases "mulberry32 rng")
  obtain rng2 r2 where m2: "mulberry32 rng1 = (rng2, r2)" by (cases "mulberry32 rng1")
  obtain rng3 r3 where m3: "mulberry32 rng2 = (rng3, r3)" by (cases "mulberry32 rng2")
  define node where "node = newRoadNode (length ns)
      (cX + cos (r1 * pi * 2) * (6 + r2 * 12)) (cY + sin (r1 * pi * 2) * (6 + r2 * 12))"
  define p where "p = nat \<lfloor>r3 * real (Suc (length ns))\<rfloor>"
  have ref: "node_ref node = length ns" by (simp add: node_def newRoadNode_def)
  from mulberry32_range [of rng2] m3 have "0 \<le> r3" "r3 < 1" by simp_all
  then have p: "p < Suc (length ns)" unfolding p_def by (rule parent_in_range)
  have inv: "\<forall>i < length (ns @ [node]). node_ref ((ns @ [node]) ! i) = i"
    using assms(1) ref by (auto simp: nth_append)
  from assms(2) have res: "rng' = rng3" "ns' = ns @ [node]"
    "es' = es @ [\<lparr>edge_from = (ns @ [node]) ! p, edge_to = node\<rparr>]"
    by (auto simp: addNode_def seededRandomAngle_def m1 m2 m3 node_def p_def Let_def)
  from inv p have "node_ref ((ns @ [node]) ! p) = p" by simp
  then have "addNodeRefs (rng, length ns, map (\<lambda>e. (node_ref (edge_from e), node_ref (edge_to e))) es)
           = (rng', length ns', map (\<lambda>e. (node_ref (edge_from e), node_ref (edge_to e))) es')"
    by (simp add: addNodeRefs_def m1 m2 m3 res ref p_def)
  with inv res(2) show ?thesis by simp
qed

lemma addNode_funpow_refs:
  assumes "\<forall>i < length ns. node_ref (ns ! i) = i"
    and "(addNode cX cY ^^ k) (rng, ns, es) = (rng', ns', es')"
  shows "(addNodeRefs ^^ k) (rng, length ns, map (\<lambda>e. (node_ref (edge_from e), node_ref (edge_to e))) es)
           = (rng', length ns', map (\<lambda>e. (node_ref (edge_from e), node_ref (edge_to e))) es')"
  using assms
proof (induction k arbitrary: rng ns es)
  case 0
  then show ?case by simp
next
  case (Suc k)
  obtain rng1 ns1 es1 where s: "addNode cX cY (rng, ns, es) = (rng1, ns1, es1)"
    by (cases "addNode cX cY (rng, ns, es)")
  from addNode_refs [OF Suc.prems(1) s]
  have inv: "\<forall>i < length ns1. node_ref (ns1 ! i) = i"
    and step: "addNodeRefs (rng, length ns, map (\<lambda>e. (node_ref (edge_from e), node_ref (edge_to e))) es)
           = (rng1, length ns1, map (\<lambda>e. (node_ref (edge_from e), node_ref (edge_to e))) es1)"
    by simp_all
  from Suc.prems(2) have "(addNode cX cY ^^ k) (rng1, ns1, es1) = (rng', ns', es')"
    by (simp add: funpow_swap1 s)
  from Suc.IH [OF inv this] step show ?case by (simp add: funpow_swap1)
qed

lemma generateGraph_refs:
  assumes "mulberry32 rng = (rng1, r1)"
    and "(addNodeRefs ^^ (nat (5 + \<lfloor>r1 * 6\<rfloor>) - 1)) (rng1, 1, []) = (rng', n, refs)"
  shows "edgeRefs (generateGraph cX cY rng) = refs \<and> length (nodes (generateGraph cX cY rng)) = n"
proof -
  let ?k = "nat (5 + \<lfloor>r1 * 6\<rfloor>) - 1"
  obtain rng2 ns es where s: "(addNode cX cY ^^ ?k) (rng1, [newRoadNode 0 cX cY], []) = (rng2, ns, es)"
    by (cases "(addNode cX cY ^^ ?k) (rng1, [newRoadNode 0 cX cY], [])")
  have "\<forall>i < length [newRoadNode 0 cX cY]. node_ref ([newRoadNode 0 cX cY] ! i) = i"
    by (simp add: newRoadNode_def)
  from addNode_funpow_refs [OF this s] assms(2)
  have "refs = map (\<lambda>e. (node_ref (edge_from e), node_ref (edge_to e))) es" "n = length ns"
    by simp_all
  moreover have "generateGraph cX cY rng = \<lparr>centerX = cX, centerY = cY, nodes = ns, edges = es\<rparr>"
    by (simp only: generateGraph_def Let_def assms(1) prod.case s)
  ultimately show ?thesis by (simp add: edgeRefs_def)
qed

lemma funpow_9: "(f ^^ 9) s = f (f (f (f (f (f (f (f (f s))))))))"
  by (simp add: numeral_eq_Suc)

lemma first_draw_12345: "mulberry32 12345 = (1831578158, 4207900869 / 4294967296)"
  by (simp add: mulberry32_def imul_def Let_def)

lemma refs_12345:
  "(addNodeRefs ^^ 9) (1831578158, 1, [])
   = (51283855109, 10, [(1, 1), (0, 2), (3, 3), (4, 4), (1, 5), (5, 6), (6, 7), (4, 8), (2, 9)])"
  by (simp add: funpow_9 addNodeRefs_def mulberry32_def imul_def Let_def)


text \<open>Every graph has one edge per node after the centre node.\<close>

lemma addNodeRefs_counts:
  assumes "(addNodeRefs ^^ k) (rng, n, es) = (rng', n', es')"
  shows "n' = n + k \<and> length es' = length es + k"
  using assms
proof (induction k arbitrary: rng' n' es')
  case 0
  then show ?case by simp
next
  case (Suc k)
  obtain rng1 n1 es1 where s: "(addNodeRefs ^^ k) (rng, n, es) = (rng1, n1, es1)"
    by (cases "(addNodeRefs ^^ k) (rng, n, es)")
  from Suc.IH [OF s] have c: "n1 = n + k" "length es1 = length es + k" by simp_all
  from Suc.prems s have "addNodeRefs (rng1, n1, es1) = (rng', n', es')" by simp
  then have "n' = n1 + 1" "length es' = length es1 + 1"
    by (auto simp: addNodeRefs_def Let_def split: prod.splits)
  with c show ?case by simp
qed

lemma generateGraph_edge_count:
  "length (edges (generateGraph cX cY rng)) + 1 = length (nodes (generateGraph cX cY rng))"
proof -
  obtain rng1 r1 where m: "mulberry32 rng = (rng1, r1)" by (cases "mulberry32 rng")
  obtain rng' n refs where s:
    "(addNodeRefs ^^ (nat (5 + \<lfloor>r1 * 6\<rfloor>) - 1)) (rng1, 1, []) = (rng', n, refs)"
    by (cases "(addNodeRefs ^^ (nat (5 + \<lfloor>r1 * 6\<rfloor>) - 1)) (rng1, 1, [])")
  from generateGraph_refs [OF m s, of cX cY]
  have "length (edges (generateGraph cX cY rng)) = length refs"
    "length (nodes (generateGraph cX cY rng)) = n"
    by (auto simp: edgeRefs_def dest: arg_cong [where f = length])
  with addNodeRefs_counts [OF s] show ?thesis by simp
qed

text \<open>
  Claim C2 on the seed 12345 and the centre \<open>(0, 0)\<close>: the graph has 10 nodes and 9
  edges, and three of the edges join a node to itself (nodes 1, 3 and 4). Nodes 1, 3
  and 4 are never joined to the centre node 0, so the edges do not form a tree.
\<close>

theorem roadGraph_self_loops:
  "edgeRefs (generateVillageRoadGraph 0 0 12345)
     = [(1, 1), (0, 2), (3, 3), (4, 4), (1, 5), (5, 6), (6, 7), (4, 8), (2, 9)]
 \<and> length (nodes (generateVillageRoadGraph 0 0 12345)) = 10"
proof -
  have k: "nat (5 + \<lfloor>(4207900869 / 4294967296 :: real) * 6\<rfloor>) - 1 = 9" by simp
  from generateGraph_refs [OF first_draw_12345, unfolded k, OF refs_12345, of 0 0]
  show ?thesis by (simp only: generateVillageRoadGraph_def createSeededRandom_def)
qed

section \<open>Properties of road rasterization\<close>

text \<open>
  The line loop ends on every pair of integer end points, and what it does to the state
  is a run of the callback over points that the end points alone determine. \<open>rx\<close> and
  \<open>ry\<close> are the steps still to make along each axis.
\<close>

lemma drawLineLoop_points:
  assumes "0 \<le> dx" "0 \<le> dy" "sx = 1 \<or> sx = - 1" "sy = 1 \<or> sy = - 1"
    and "x1 = x0 + sx * rx" "y1 = y0 + sy * ry"
    and "0 \<le> rx" "rx \<le> dx" "0 \<le> ry" "ry \<le> dy"
    and "err = dx - dy + rx * dy - ry * dx"
  shows "\<exists>pts. \<forall>(cb :: int \<Rightarrow> int \<Rightarrow> 's \<Rightarrow> 's) s.
            drawLineLoop cb x1 y1 dx dy sx sy x0 y0 err s
              = Some (fold (\<lambda>p. cb (fst p) (snd p)) pts s)"
  using assms
proof (induction "nat (rx + ry)" arbitrary: x0 y0 rx ry err rule: less_induct)
  case less
  show ?case
  proof (cases "x0 = x1 \<and> y0 = y1")
    case True
    then have "\<forall>(cb :: int \<Rightarrow> int \<Rightarrow> 's \<Rightarrow> 's) s.
                 drawLineLoop cb x1 y1 dx dy sx sy x0 y0 err s
                 = Some (fold (\<lambda>p. cb (fst p) (snd p)) [(x0, y0)] s)"
      by (subst drawLineLoop.simps) simp
    then show ?thesis ..
  next
    case False
    define stepx where "stepx = (err * 2 > - dy)"
    define stepy where "stepy = (err * 2 < dx)"
    define rx' where "rx' = (if stepx then rx - 1 else rx)"
    define ry' where "ry' = (if stepy then ry - 1 else ry)"
    define x0' where "x0' = (if stepx then x0 + sx else x0)"
    define y0' where "y0' = (if stepy then y0 + sy else y0)"
    define err1 where "err1 = (if stepx then err - dy else err)"
    define err2 where "err2 = (if stepy then err1 + dx else err1)"
    from less.prems(3,5) have atx: "x0 = x1 \<longleftrightarrow> rx = 0" by auto
    from less.prems(4,6) have aty: "y0 = y1 \<longleftrightarrow> ry = 0" by auto
    from False atx aty have pos: "rx > 0 \<or> ry > 0"
      using less.prems(7,9) by auto
    have nx: "\<not> stepx" if "rx = 0"
    proof -
      from that pos have "ry \<ge> 1" by simp
      then have "ry * dx \<ge> dx" using less.prems(1) by (simp add: mult_le_cancel_right1)
      with that less.prems(11) have "err \<le> - dy" by simp
      with less.prems(2) show ?thesis by (simp add: stepx_def)
    qed
    have ny: "\<not> stepy" if "ry = 0"
    proof -
      from that pos have "rx \<ge> 1" by simp
      then have "rx * dy \<ge> dy" using less.prems(2) by (simp add: mult_le_cancel_right1)
      with that less.prems(11) have "err \<ge> dx" by simp
      with less.prems(1) show ?thesis by (simp add: stepy_def)
    qed
    have some: "stepx \<or> stepy"
    proof (rule ccontr)
      assume "\<not> (stepx \<or> stepy)"
      then have "err * 2 \<le> - dy" "dx \<le> err * 2" by (simp_all add: stepx_def stepy_def)
      with less.prems(1,2) have "dx = 0" "dy = 0" by simp_all
      with less.prems(7-10) pos show False by simp
    qed
    have px: "rx \<ge> 1" if "stepx"
      using that nx less.prems(7) by (cases "rx = 0") simp_all
    have py: "ry \<ge> 1" if "stepy"
      using that ny less.prems(9) by (cases "ry = 0") simp_all
    have r: "0 \<le> rx'" "rx' \<le> dx" "0 \<le> ry'" "ry' \<le> dy"
      using px py less.prems(7-10) by (auto simp: rx'_def ry'_def)
    have dec: "nat (rx' + ry') < nat (rx + ry)"
      using some px py less.prems(7,9) by (auto simp: rx'_def ry'_def)
    have sq: "sx * sx = 1" "sy * sy = 1" using less.prems(3,4) by auto
    have x: "x1 = x0' + sx * rx'"
      using less.prems(5) sq by (simp add: x0'_def rx'_def right_diff_distrib)
    have y: "y1 = y0' + sy * ry'"
      using less.prems(6) sq by (simp add: y0'_def ry'_def right_diff_distrib)
    have e: "err2 = dx - dy + rx' * dy - ry' * dx"
      using less.prems(11) by (simp add: err2_def err1_def rx'_def ry'_def algebra_simps)
    from less.hyps [OF dec less.prems(1-4) x y r e]
    obtain pts where pts: "\<forall>(cb :: int \<Rightarrow> int \<Rightarrow> 's \<Rightarrow> 's) s.
                       drawLineLoop cb x1 y1 dx dy sx sy x0' y0' err2 s
                       = Some (fold (\<lambda>p. cb (fst p) (snd p)) pts s)" ..
    have "\<forall>(cb :: int \<Rightarrow> int \<Rightarrow> 's \<Rightarrow> 's) s.
                 drawLineLoop cb x1 y1 dx dy sx sy x0 y0 err s
                 = Some (fold (\<lambda>p. cb (fst p) (snd p)) ((x0, y0) # pts) s)"
    proof (intro allI)
      fix cb :: "int \<Rightarrow> int \<Rightarrow> 's \<Rightarrow> 's" and s
      have "drawLineLoop cb x1 y1 dx dy sx sy x0 y0 err s
            = drawLineLoop cb x1 y1 dx dy sx sy x0' y0' err2 (cb x0 y0 s)"
        using False
        by (subst drawLineLoop.simps)
          (auto simp: Let_def x0'_def y0'_def err2_def err1_def stepx_def stepy_def)
      with pts show "drawLineLoop cb x1 y1 dx dy sx sy x0 y0 err s
                 = Some (fold (\<lambda>p. cb (fst p) (snd p)) ((x0, y0) # pts) s)" by simp
    qed
    then show ?thesis ..
  qed
qed

lemma drawLineOnGrid_points:
  "\<exists>pts. \<forall>(cb :: int \<Rightarrow> int \<Rightarrow> 's \<Rightarrow> 's) s.
            drawLineOnGrid cb px0 py0 px1 py1 s
              = Some (fold (\<lambda>p. cb (fst p) (snd p)) pts s)"
proof -
  define x0 y0 x1 y1 where "x0 = \<lfloor>px0\<rfloor>" and "y0 = \<lfloor>py0\<rfloor>" and "x1 = \<lfloor>px1\<rfloor>" and "y1 = \<lfloor>py1\<rfloor>"
  define sx sy :: int where "sx = (if x0 < x1 then 1 else - 1)" and "sy = (if y0 < y1 then 1 else - 1)"
  have "\<exists>pts. \<forall>(cb :: int \<Rightarrow> int \<Rightarrow> 's \<Rightarrow> 's) s.
          drawLineLoop cb x1 y1 \<bar>x1 - x0\<bar> \<bar>y1 - y0\<bar> sx sy x0 y0 (\<bar>x1 - x0\<bar> - \<bar>y1 - y0\<bar>) s
                   = Some (fold (\<lambda>p. cb (fst p) (snd p)) pts s)"
    by (rule drawLineLoop_points [where rx = "\<bar>x1 - x0\<bar>" and ry = "\<bar>y1 - y0\<bar>"])
      (auto simp: sx_def sy_def)
  then show ?thesis
    by (simp add: drawLineOnGrid_def Let_def x0_def y0_def x1_def y1_def sx_def sy_def)
qed

text \<open>
  The guarded assignment never turns a blocked position into a free one, and blocks the
  position it is applied to; so after a run over some positions all of them are blocked,
  and the same run again changes nothing.
\<close>

lemma markRoad_blocked_id:
  "roadBlocked tm p \<Longrightarrow> markRoad rt (fst p) (snd p) tm = tm"
  by (auto simp: roadBlocked_def markRoad_def)

lemma markRoad_length: "length (markRoad rt tx ty tm) = length tm"
  by (simp add: markRoad_def)

lemma markRoad_row_length: "length (markRoad rt tx ty tm ! j) = length (tm ! j)"
  by (auto simp: markRoad_def nth_list_update)

lemma markRoad_roadType:
  assumes "j < length tm" "i < length (tm ! j)"
  shows "roadType (markRoad rt tx ty tm ! j ! i) = roadType (tm ! j ! i)
         \<or> roadType (markRoad rt tx ty tm ! j ! i) = Some rt"
  using assms by (auto simp: markRoad_def nth_list_update)

lemma markRoad_keeps:
  assumes "j < length tm" "i < length (tm ! j)" "roadType (tm ! j ! i) \<noteq> None"
  shows "markRoad rt tx ty tm ! j ! i = tm ! j ! i"
  using assms by (auto simp: markRoad_def nth_list_update)

lemma markRoad_blocks_self: "roadBlocked (markRoad rt tx ty tm) (tx, ty)"
  by (auto simp: roadBlocked_def markRoad_def)

lemma markRoad_blocked_mono:
  assumes "roadBlocked tm p"
  shows "roadBlocked (markRoad rt tx ty tm) p"
proof (rule ccontr)
  assume "\<not> roadBlocked (markRoad rt tx ty tm) p"
  then have b: "0 \<le> snd p" "snd p < int (length tm)" "0 \<le> fst p"
    "fst p < int (length (tm ! nat (snd p)))"
    and n: "roadType (markRoad rt tx ty tm ! nat (snd p) ! nat (fst p)) = None"
    by (simp_all add: roadBlocked_def markRoad_length markRoad_row_length)
  from b have "nat (snd p) < length tm" "nat (fst p) < length (tm ! nat (snd p))" by simp_all
  from markRoad_roadType [OF this, of rt tx ty] n
  have "roadType (tm ! nat (snd p) ! nat (fst p)) = None" by auto
  with b assms show False by (simp add: roadBlocked_def)
qed

lemma markRoads_Cons: "markRoads rt (p # ps) tm = markRoads rt ps (markRoad rt (fst p) (snd p) tm)"
  by (simp add: markRoads_def)

lemma markRoads_blocked_mono: "roadBlocked tm p \<Longrightarrow> roadBlocked (markRoads rt ps tm) p"
proof (induction ps arbitrary: tm)
  case Nil
  then show ?case by (simp add: markRoads_def)
next
  case (Cons q ps)
  from Cons.prems have "roadBlocked (markRoad rt (fst q) (snd q) tm) p"
    by (rule markRoad_blocked_mono)
  then show ?case unfolding markRoads_Cons by (rule Cons.IH)
qed

lemma markRoads_blocks_all: "p \<in> set ps \<Longrightarrow> roadBlocked (markRoads rt ps tm) p"
proof (induction ps arbitrary: tm)
  case Nil
  then show ?case by simp
next
  case (Cons q ps)
  show ?case
  proof (cases "p = q")
    case True
    have "roadBlocked (markRoad rt (fst q) (snd q) tm) (fst q, snd q)"
      by (rule markRoad_blocks_self)
    then have "roadBlocked (markRoad rt (fst q) (snd q) tm) q" by simp
    then show ?thesis unfolding markRoads_Cons True by (rule markRoads_blocked_mono)
  next
    case False
    with Cons.prems have "p \<in> set ps" by simp
    then show ?thesis unfolding markRoads_Cons by (rule Cons.IH)
  qed
qed

lemma markRoads_noop: "(\<And>p. p \<in> set ps \<Longrightarrow> roadBlocked tm p) \<Longrightarrow> markRoads rt ps tm = tm"
proof (induction ps)
  case Nil
  show ?case by (simp add: markRoads_def)
next
  case (Cons q ps)
  have "markRoad rt (fst q) (snd q) tm = tm"
    by (rule markRoad_blocked_id) (rule Cons.prems, simp)
  moreover have "markRoads rt ps tm = tm"
    by (rule Cons.IH) (rule Cons.prems, simp)
  ultimately show ?case by (simp add: markRoads_Cons)
qed

lemma markRoads_idempotent: "markRoads rt ps (markRoads rt ps tm) = markRoads rt ps tm"
  by (rule markRoads_noop) (rule markRoads_blocks_all)

lemma markRoads_keeps:
  assumes "j < length tm" "i < length (tm ! j)" "roadType (tm ! j ! i) \<noteq> None"
  shows "markRoads rt ps tm ! j ! i = tm ! j ! i"
  using assms
proof (induction ps arbitrary: tm)
  case Nil
  show ?case by (simp add: markRoads_def)
next
  case (Cons q ps)
  let ?tm = "markRoad rt (fst q) (snd q) tm"
  from markRoad_keeps [OF Cons.prems] have k: "?tm ! j ! i = tm ! j ! i" .
  from Cons.prems have "j < length ?tm" "i < length (?tm ! j)" "roadType (?tm ! j ! i) \<noteq> None"
    by (simp_all add: markRoad_length markRoad_row_length k)
  from Cons.IH [OF this] k show ?case by (simp add: markRoads_Cons)
qed

lemma fold_fold_concat: "fold (\<lambda>q. fold f (h q)) qs s = fold f (concat (map h qs)) s"
  by (induction qs arbitrary: s) simp_all

lemma roadCallback_markRoads:
  "roadCallback w rt px py tm
   = markRoads rt (map (\<lambda>(dx, dy). (px + dx, py + dy))
                    (concat (map (\<lambda>dx. map (\<lambda>dy. (dx, dy)) [- w..w]) [- w..w]))) tm"
  by (simp add: roadCallback_def markRoads_def fold_map comp_def case_prod_unfold)

lemma rasterizeEdges_markRoads:
  "\<exists>ps. \<forall>tm. rasterizeEdges w rt es tm = Some (markRoads rt ps tm)"
proof (induction es)
  case Nil
  have "\<forall>tm. rasterizeEdges w rt [] tm = Some (markRoads rt [] tm)" by (simp add: markRoads_def)
  then show ?case ..
next
  case (Cons e es)
  from Cons.IH obtain ps where ps: "\<forall>tm. rasterizeEdges w rt es tm = Some (markRoads rt ps tm)" ..
  from drawLineOnGrid_points [where 's = "Tile list list"]
  obtain pts where pts: "\<forall>(cb :: int \<Rightarrow> int \<Rightarrow> Tile list list \<Rightarrow> Tile list list) s.
      drawLineOnGrid cb (real_of_int (node_x (edge_from e))) (real_of_int (node_y (edge_from e)))
        (real_of_int (node_x (edge_to e))) (real_of_int (node_y (edge_to e))) s
      = Some (fold (\<lambda>p. cb (fst p) (snd p)) pts s)" by blast
  define qs where "qs = concat (map (\<lambda>p. map (\<lambda>(dx, dy). (fst p + dx, snd p + dy))
                    (concat (map (\<lambda>dx. map (\<lambda>dy. (dx, dy)) [- w..w]) [- w..w]))) pts)"
  have line: "fold (\<lambda>p. roadCallback w rt (fst p) (snd p)) pts tm = markRoads rt qs tm" for tm
    unfolding roadCallback_markRoads markRoads_def qs_def by (rule fold_fold_concat)
  have "\<forall>tm. rasterizeEdges w rt (e # es) tm = Some (markRoads rt (qs @ ps) tm)"
    by (simp add: pts ps line) (simp add: markRoads_def)
  then show ?case ..
qed

text \<open>
  Claim C7. \<open>rasterizeroads\<close> returns on every map, graph and options; it leaves every
  tile that already has a road tag exactly as it is; and a second rasterization of the
  same graph with the same options onto the result changes nothing.
\<close>

theorem rasterizeroads_idempotent:
  "\<exists>tileMap'. rasterizeroads tileMap graph options = Some tileMap'
     \<and> rasterizeroads tileMap' graph options = Some tileMap'
     \<and> (\<forall>ty < length tileMap. \<forall>tx < length (tileMap ! ty).
          roadType (tileMap ! ty ! tx) \<noteq> None \<longrightarrow> tileMap' ! ty ! tx = tileMap ! ty ! tx)"
proof -
  define w where "w = (case opt_roadWidth options of None \<Rightarrow> 1 | Some w \<Rightarrow> if w = 0 then 1 else w)"
  define rt where "rt = (case opt_roadType options of
                  None \<Rightarrow> ''road'' | Some t \<Rightarrow> if t = [] then ''road'' else t)"
  from rasterizeEdges_markRoads [of w rt "edges graph"]
  obtain ps where ps: "\<forall>tm. rasterizeEdges w rt (edges graph) tm = Some (markRoads rt ps tm)" ..
  have r: "rasterizeroads tm graph options = Some (markRoads rt ps tm)" for tm
    by (simp add: rasterizeroads_def Let_def ps w_def [symmetric] rt_def [symmetric])
  have "rasterizeroads (markRoads rt ps tileMap) graph options = Some (markRoads rt ps tileMap)"
    by (simp only: r markRoads_idempotent)
  moreover have "\<forall>ty < length tileMap. \<forall>tx < length (tileMap ! ty).
          roadType (tileMap ! ty ! tx) \<noteq> None
          \<longrightarrow> markRoads rt ps tileMap ! ty ! tx = tileMap ! ty ! tx"
    by (simp add: markRoads_keeps)
  ultimately show ?thesis using r [of tileMap] by blast
qed

lemma sample_line:
  "drawLineOnGrid cb 0 0 1 1 s = Some (cb 1 1 (cb 0 0 s))"
  by (simp add: drawLineOnGrid_def drawLineLoop.simps Let_def)

lemma sample_offsets:
  "concat (map (\<lambda>dx. map (\<lambda>dy. (dx, dy)) [- 1..1]) [- 1..(1::int)])
   = [(-1,-1),(-1,0),(-1,1),(0,-1),(0,0),(0,1),(1,-1),(1,0),(1,1)]"
  by (simp add: upto.simps)

lemma sample_raster:
  "\<exists>tm. rasterizeroads sampleRoadMap sampleRoadGraph \<lparr>opt_roadWidth = None, opt_roadType = None\<rparr>
        = Some tm
      \<and> map (map roadType) tm = [[Some ''river'', Some ''road''], [Some ''road'', Some ''road'']]"
  by (simp add: rasterizeroads_def sampleRoadGraph_def sample_line roadCallback_def
      sample_offsets markRoad_def sampleRoadMap_def newTile_def Let_def)

theorem rasterizeroads_idempotent_witness:
  "\<exists>tileMap'.
     rasterizeroads sampleRoadMap sampleRoadGraph \<lparr>opt_roadWidth = None, opt_roadType = None\<rparr>
       = Some tileMap'
   \<and> rasterizeroads tileMap' sampleRoadGraph \<lparr>opt_roadWidth = None, opt_roadType = None\<rparr>
       = Some tileMap'
   \<and> roadType (sampleRoadMap ! 0 ! 0) = Some ''river''
   \<and> tileMap' ! 0 ! 0 = sampleRoadMap ! 0 ! 0
   \<and> map (map roadType) tileMap'
       = [[Some ''river'', Some ''road''], [Some ''road'', Some ''road'']]"
proof -
  let ?o = "\<lparr>opt_roadWidth = None, opt_roadType = None\<rparr>"
  from rasterizeroads_idempotent [of sampleRoadMap sampleRoadGraph ?o]
  obtain tm' where t: "rasterizeroads sampleRoadMap sampleRoadGraph ?o = Some tm'
     \<and> rasterizeroads tm' sampleRoadGraph ?o = Some tm'
     \<and> (\<forall>ty < length sampleRoadMap. \<forall>tx < length (sampleRoadMap ! ty).
          roadType (sampleRoadMap ! ty ! tx) \<noteq> None
          \<longrightarrow> tm' ! ty ! tx = sampleRoadMap ! ty ! tx)" ..
  then have a: "rasterizeroads sampleRoadMap sampleRoadGraph ?o = Some tm'"
    and b: "rasterizeroads tm' sampleRoadGraph ?o = Some tm'"
    and c: "\<forall>ty < length sampleRoadMap. \<forall>tx < length (sampleRoadMap ! ty).
          roadType (sampleRoadMap ! ty ! tx) \<noteq> None
          \<longrightarrow> tm' ! ty ! tx = sampleRoadMap ! ty ! tx" by simp_all
  have r: "roadType (sampleRoadMap ! 0 ! 0) = Some ''river''"
    by (simp add: sampleRoadMap_def)
  have "0 < length sampleRoadMap" "0 < length (sampleRoadMap ! 0)"
    by (simp_all add: sampleRoadMap_def)
  with c r have k: "tm' ! 0 ! 0 = sampleRoadMap ! 0 ! 0" by simp
  from sample_raster a
  have m: "map (map roadType) tm' = [[Some ''river'', Some ''road''], [Some ''road'', Some ''road'']]"
    by auto
  show ?thesis by (rule exI [of _ tm'], intro conjI) (rule a b r k m)+
qed

end
